theory Spec2Isabelle
  imports Complex_Main
begin

section \<open>Flexural design engine for reinforced-concrete sections\<close>

text \<open>
  A shallow embedding of the analysis and design engine (\<^verbatim>\<open>core/engine.py\<close>) together with
  the material and section value objects it reads (\<^verbatim>\<open>core/material/material.py\<close>,
  \<^verbatim>\<open>core/section/rectangular.py\<close>, \<^verbatim>\<open>core/section/tshape.py\<close>) and the tolerance
  comparisons of \<^verbatim>\<open>core/helpers.py\<close>.

  Python \<^verbatim>\<open>float\<close> values are embedded as \<^typ>\<open>real\<close>: every theorem below is about the
  exact arithmetic the formulas denote, not about binary rounding.  Every \<^verbatim>\<open>raise\<close> of the
  source is a value \<open>Inl e\<close> of the result type \<open>error + 'a\<close>; a division whose divisor can
  be zero for a constructed object is guarded in the model by the \<^verbatim>\<open>ZeroDivisionError\<close>
  that Python raises.
\<close>

subsection \<open>Exceptions\<close>

datatype error =
    ValueError
  | SectionCapacityError
  | ZeroDivisionError
  | NotImplementedError

subsection \<open>Tolerance comparisons (core/helpers.py)\<close>

definition TOLERANCE :: real where
  "TOLERANCE = 1 / 1000000000"

definition is_greater_or_equal :: "real \<Rightarrow> real \<Rightarrow> bool" where
  "is_greater_or_equal a b = ((a - b) > - TOLERANCE)"

definition is_less_or_equal :: "real \<Rightarrow> real \<Rightarrow> bool" where
  "is_less_or_equal a b = ((a - b) < TOLERANCE)"

definition is_equal :: "real \<Rightarrow> real \<Rightarrow> bool" where
  "is_equal a b = (\<bar>a - b\<bar> < TOLERANCE)"

subsection \<open>Design constants (core/constants.py)\<close>

text \<open>
  Modelled from the spec: the module \<^verbatim>\<open>core/constants.py\<close> is imported by the engine but is
  not among the sources.  The specification gives the tension-controlled factor as 0.85, the
  compression-controlled (tied) factor as 0.65 and the minimum-flexural-strength multiplier
  as 1.2.
\<close>

definition PHI_TENSION_CONTROLLED :: real where
  "PHI_TENSION_CONTROLLED = 0.85"

definition PHI_COMPRESSION_CONTROLLED_TIED :: real where
  "PHI_COMPRESSION_CONTROLLED_TIED = 0.65"

definition MIN_FLEXURAL_STRENGTH_FACTOR :: real where
  "MIN_FLEXURAL_STRENGTH_FACTOR = 1.2"

subsection \<open>Materials (core/material/material.py)\<close>

text \<open>
  A \<^verbatim>\<open>Steel\<close> object holds a grade string; its constructor raises \<^verbatim>\<open>MaterialError\<close>
  unless the grade is a key of \<^verbatim>\<open>_REBAR_SPECS\<close> (and \<open>fy \<le> 600\<close>, which all seven keys
  satisfy).  The grades that a constructed object can hold are therefore exactly the
  constructors of \<open>grade\<close>, and \<open>REBAR_SPECS\<close> is the table (yield, ultimate strength).
\<close>

datatype grade = SD300 | SD350 | SD400 | SD500 | SD600 | SD400W | SD500W

fun REBAR_SPECS :: "grade \<Rightarrow> real \<times> real" where
  "REBAR_SPECS SD300 = (300, 440)"
| "REBAR_SPECS SD350 = (350, 490)"
| "REBAR_SPECS SD400 = (400, 560)"
| "REBAR_SPECS SD500 = (500, 620)"
| "REBAR_SPECS SD600 = (600, 710)"
| "REBAR_SPECS SD400W = (400, 560)"
| "REBAR_SPECS SD500W = (500, 620)"

definition STEEL_ELASTIC_MODULUS :: real where
  "STEEL_ELASTIC_MODULUS = 200000"

datatype steel = Steel (grade: grade)

definition fy :: "steel \<Rightarrow> real" where
  "fy s = fst (REBAR_SPECS (grade s))"

definition Es :: "steel \<Rightarrow> real" where
  "Es s = STEEL_ELASTIC_MODULUS"

definition yield_strain :: "steel \<Rightarrow> real" where
  "yield_strain s = fy s / Es s"

definition compression_controlled_limit_strain :: "steel \<Rightarrow> real" where
  "compression_controlled_limit_strain s = yield_strain s"

definition tension_controlled_limit_strain :: "steel \<Rightarrow> real" where
  "tension_controlled_limit_strain s =
     (if fy s > 400 then 2.5 * yield_strain s else 0.005)"

definition min_allowable_tensile_strain :: "steel \<Rightarrow> real" where
  "min_allowable_tensile_strain s =
     (if fy s > 400 then 2.0 * yield_strain s else 0.004)"

datatype concrete =
  Concrete (fck: real) (unit_mass: real) (lightweight_factor_lambda: real)

text \<open>The checks of \<^verbatim>\<open>Concrete.__post_init__\<close>: an object exists only when they pass.\<close>

definition valid_concrete :: "concrete \<Rightarrow> bool" where
  "valid_concrete conc =
     (\<not> fck conc \<le> 0 \<and>
      (0.75 \<le> lightweight_factor_lambda conc \<and> lightweight_factor_lambda conc \<le> 1.0))"

definition ultimate_strain :: "concrete \<Rightarrow> real" where
  "ultimate_strain conc =
     (if fck conc \<le> 40 then 0.0033
      else max (0.0033 - (fck conc - 40) / 100000) 0.0028)"

definition modulus_of_rupture :: "concrete \<Rightarrow> real" where
  "modulus_of_rupture conc = 0.63 * lightweight_factor_lambda conc * sqrt (fck conc)"

definition beta1 :: "concrete \<Rightarrow> real" where
  "beta1 conc =
     (if fck conc \<le> 40 then 0.80
      else if fck conc < 80 then max 0.64 (0.80 - 0.04 * ((fck conc - 40) / 10))
      else 0.64)"

definition eta :: "concrete \<Rightarrow> real" where
  "eta conc =
     (if fck conc \<le> 40 then 1.00
      else if fck conc < 90 then max 0.84 (1.00 - 0.03 * ((fck conc - 40) / 10))
      else 0.84)"

subsection \<open>Sections (core/section)\<close>

text \<open>
  The two concrete subclasses of \<^verbatim>\<open>BaseSection\<close>, with the fields in the order of the
  dataclasses.  The optional compression-steel fields are never read by the engine and are
  left out.
\<close>

datatype BaseSection =
    is_RectangularSection: RectangularSection
      (width: real) (height: real) (cover_to_stirrup: real) (stirrup_dia: real)
      (tension_rebar_dia: real) (concrete: concrete) (tension_steel: steel)
  | is_TSection: TSection
      (height: real) (web_width: real) (flange_width: real) (flange_depth: real)
      (cover_to_stirrup: real) (stirrup_dia: real) (tension_rebar_dia: real)
      (concrete: concrete) (tension_steel: steel)

definition effective_depth :: "BaseSection \<Rightarrow> real" where
  "effective_depth s =
     height s - cover_to_stirrup s - stirrup_dia s - (tension_rebar_dia s / 2)"

text \<open>
  The checks of the two \<^verbatim>\<open>__post_init__\<close> methods (a failing check raises
  \<^verbatim>\<open>SectionError\<close> and no object is built), together with the validity of the concrete
  the section carries.
\<close>

definition valid_section :: "BaseSection \<Rightarrow> bool" where
  "valid_section s =
     (valid_concrete (concrete s) \<and>
      (if is_RectangularSection s then
         list_all (\<lambda>v. v \<ge> 0)
           [width s, height s, cover_to_stirrup s, stirrup_dia s, tension_rebar_dia s] \<and>
         \<not> effective_depth s \<le> 0
       else
         list_all (\<lambda>v. v \<ge> 0)
           [web_width s, height s, flange_width s, flange_depth s,
            cover_to_stirrup s, stirrup_dia s, tension_rebar_dia s] \<and>
         \<not> flange_width s < web_width s \<and>
         \<not> flange_depth s \<ge> height s \<and>
         \<not> effective_depth s \<le> 0))"

definition gross_area :: "BaseSection \<Rightarrow> real" where
  "gross_area s =
     (if is_RectangularSection s then width s * height s
      else
        (let flange_area = flange_width s * flange_depth s;
             web_area = web_width s * (height s - flange_depth s)
         in flange_area + web_area))"

text \<open>Distance of the centroid of a T-section from the top fibre; divides by the gross area.\<close>

definition centroid_y :: "BaseSection \<Rightarrow> error + real" where
  "centroid_y s =
     (let flange_area = flange_width s * flange_depth s;
          web_area = web_width s * (height s - flange_depth s);
          flange_moment = flange_area * (flange_depth s / 2);
          web_moment = web_area * (flange_depth s + (height s - flange_depth s) / 2)
      in if gross_area s = 0 then Inl ZeroDivisionError
         else Inr ((flange_moment + web_moment) / gross_area s))"

definition Ig :: "BaseSection \<Rightarrow> error + real" where
  "Ig s =
     (if is_RectangularSection s then Inr ((width s * height s ^ 3) / 12)
      else
        (let Ig_flange = (flange_width s * flange_depth s ^ 3) / 12;
             Ig_web = (web_width s * (height s - flange_depth s) ^ 3) / 12
         in case centroid_y s of
              Inl e \<Rightarrow> Inl e
            | Inr yc \<Rightarrow>
                (let flange_area = flange_width s * flange_depth s;
                     web_area = web_width s * (height s - flange_depth s);
                     d_flange = \<bar>yc - (flange_depth s / 2)\<bar>;
                     d_web = \<bar>yc - (flange_depth s + (height s - flange_depth s) / 2)\<bar>;
                     Ad2_flange = flange_area * (d_flange ^ 2);
                     Ad2_web = web_area * (d_web ^ 2)
                 in Inr (Ig_flange + Ad2_flange + Ig_web + Ad2_web))))"

definition cracking_moment :: "BaseSection \<Rightarrow> error + real" where
  "cracking_moment s =
     (let fr = modulus_of_rupture (concrete s) in
      case Ig s of
        Inl e \<Rightarrow> Inl e
      | Inr ig \<Rightarrow>
          (if is_RectangularSection s then
             (let yt = height s / 2
              in if yt = 0 then Inl ZeroDivisionError else Inr (fr * ig / yt))
           else
             (case centroid_y s of
                Inl e \<Rightarrow> Inl e
              | Inr yc \<Rightarrow>
                  (let yt = height s - yc
                   in if yt = 0 then Inl ZeroDivisionError else Inr (fr * ig / yt)))))"

subsection \<open>Result records (core/engine.py)\<close>

datatype AnalysisResult =
  AnalysisResult (c: real) (net_tensile_strain: real) (phi: real) (phi_mn: real)

datatype CapacityResult =
  CapacityResult (as_max: real) (max_phi_mn: real) (analysis_result: AnalysisResult)

datatype DesignResult =
  DesignResult (as_required: real) (as_min: real) (as_max: real)
    (is_min_rebar_controlled: bool) (analysis_result: AnalysisResult)

datatype CheckResult =
  CheckResult (is_ok: bool) (strength_ok: bool) (ductility_ok: bool) (min_rebar_ok: bool)
    (analysis_result: AnalysisResult)

subsection \<open>Strength-reduction factor\<close>

definition calculate_phi :: "steel \<Rightarrow> real \<Rightarrow> real" where
  "calculate_phi st et =
     (let e_ccl = compression_controlled_limit_strain st;
          e_tcl = tension_controlled_limit_strain st
      in if is_greater_or_equal et e_tcl then PHI_TENSION_CONTROLLED
         else if is_less_or_equal et e_ccl then PHI_COMPRESSION_CONTROLLED_TIED
         else PHI_COMPRESSION_CONTROLLED_TIED +
              (PHI_TENSION_CONTROLLED - PHI_COMPRESSION_CONTROLLED_TIED) *
              (et - e_ccl) / (e_tcl - e_ccl))"

subsection \<open>Section analysis\<close>

definition analyze_rectangular :: "BaseSection \<Rightarrow> real \<Rightarrow> real \<Rightarrow> error + AnalysisResult" where
  "analyze_rectangular s As Pu =
     (let conc = concrete s; st = tension_steel s;
          b = width s; d = effective_depth s; h = height s;
          numerator = As * fy st - Pu;
          denominator = eta conc * 0.85 * fck conc * beta1 conc * b
      in if \<bar>denominator\<bar> < 1 / 1000000000 then Inl SectionCapacityError
         else
           (let cc = numerator / denominator
            in if cc \<le> 0 then Inl SectionCapacityError
               else
                 (let et = ultimate_strain conc * (d - cc) / cc;
                      ph = calculate_phi st et;
                      a = beta1 conc * cc;
                      Cc = eta conc * 0.85 * fck conc * a * b;
                      Mn = Cc * (d - a / 2) + Pu * (d - h / 2)
                  in Inr (AnalysisResult cc et ph (ph * Mn)))))"

text \<open>
  The two equilibrium cases of the T-section analysis, each giving the neutral-axis depth
  and the nominal moment: case 1 (stress block within the flange) and case 2 (stress block
  reaching into the web, which can fail on a degenerate web width).
\<close>

definition tsection_flange_case :: "BaseSection \<Rightarrow> real \<Rightarrow> real \<Rightarrow> real \<times> real" where
  "tsection_flange_case s As Pu =
     (let conc = concrete s; st = tension_steel s;
          d = effective_depth s; h = height s; bf = flange_width s;
          numerator_rect = As * fy st - Pu;
          denominator_rect = eta conc * 0.85 * fck conc * beta1 conc * bf;
          c_rect_assumption = numerator_rect / denominator_rect;
          a = beta1 conc * c_rect_assumption;
          cc = c_rect_assumption;
          Cc = eta conc * 0.85 * fck conc * a * bf;
          Mn = Cc * (d - a / 2) + Pu * (d - h / 2)
      in (cc, Mn))"

definition tsection_web_case :: "BaseSection \<Rightarrow> real \<Rightarrow> real \<Rightarrow> error + real \<times> real" where
  "tsection_web_case s As Pu =
     (let conc = concrete s; st = tension_steel s;
          bw = web_width s; d = effective_depth s; h = height s;
          bf = flange_width s; hf = flange_depth s;
          Ccf = eta conc * 0.85 * fck conc * (bf - bw) * hf;
          numerator_t = As * fy st - Pu - Ccf;
          denominator_t = eta conc * 0.85 * fck conc * beta1 conc * bw
      in if \<bar>denominator_t\<bar> < 1 / 1000000000 then Inl SectionCapacityError
         else
           (let cc = numerator_t / denominator_t;
                a = beta1 conc * cc;
                Ccw = eta conc * 0.85 * fck conc * a * bw;
                Mn_f = Ccf * (d - hf / 2);
                Mn_w = Ccw * (d - a / 2);
                Mn = Mn_f + Mn_w + Pu * (d - h / 2)
            in Inr (cc, Mn)))"

definition analyze_tsection :: "BaseSection \<Rightarrow> real \<Rightarrow> real \<Rightarrow> error + AnalysisResult" where
  "analyze_tsection s As Pu =
     (let conc = concrete s; st = tension_steel s;
          d = effective_depth s; bf = flange_width s; hf = flange_depth s;
          numerator_rect = As * fy st - Pu;
          denominator_rect = eta conc * 0.85 * fck conc * beta1 conc * bf
      in if \<bar>denominator_rect\<bar> < 1 / 1000000000 then Inl SectionCapacityError
         else
           (let c_rect_assumption = numerator_rect / denominator_rect;
                a = beta1 conc * c_rect_assumption
            in case (if is_less_or_equal a hf then Inr (tsection_flange_case s As Pu)
                     else tsection_web_case s As Pu) of
                 Inl e \<Rightarrow> Inl e
               | Inr (cc, Mn) \<Rightarrow>
                   (if cc \<le> 0 then Inl SectionCapacityError
                    else
                      (let et = ultimate_strain conc * (d - cc) / cc;
                           ph = calculate_phi st et
                       in Inr (AnalysisResult cc et ph (ph * Mn))))))"

definition analyze_section ::
  "BaseSection \<Rightarrow> real \<Rightarrow> real \<Rightarrow> real \<Rightarrow> error + AnalysisResult" where
  "analyze_section s As Pu As_prime =
     (if As_prime > 0 then Inl NotImplementedError
      else if is_RectangularSection s then analyze_rectangular s As Pu
      else if is_TSection s then analyze_tsection s As Pu
      else Inl NotImplementedError)"

subsection \<open>Axial-load precheck\<close>

definition get_max_axial_capacity :: "BaseSection \<Rightarrow> real \<Rightarrow> real" where
  "get_max_axial_capacity s assumed_rho =
     (let conc = concrete s; st = tension_steel s;
          Ag = gross_area s; Ast = assumed_rho * gross_area s;
          ph = PHI_COMPRESSION_CONTROLLED_TIED;
          Pn_max_nominal = 0.85 * fck conc * (Ag - Ast) + fy st * Ast
      in 0.80 * ph * Pn_max_nominal)"

definition check_axial_load_limit :: "BaseSection \<Rightarrow> real \<Rightarrow> error + unit" where
  "check_axial_load_limit s pu =
     (if pu > 0 then
        (let max_pu_limit = get_max_axial_capacity s 0.01
         in if pu > max_pu_limit then Inl SectionCapacityError else Inr ())
      else Inr ())"

subsection \<open>Inversion search\<close>

text \<open>
  The \<^verbatim>\<open>for _ in range(100)\<close> loop of \<^verbatim>\<open>_find_as_for_mu\<close>: the first argument counts the
  iterations that remain, the last two are the bracket \<open>as_lower_bound\<close>,
  \<open>as_upper_bound_search\<close>.  Leaving the loop (by \<^verbatim>\<open>break\<close> or by exhausting the range)
  returns the upper end of the bracket.
\<close>

fun find_as_loop ::
  "nat \<Rightarrow> BaseSection \<Rightarrow> real \<Rightarrow> real \<Rightarrow> real \<Rightarrow> real \<Rightarrow> error + real" where
  "find_as_loop 0 s target_mu pu as_lower_bound as_upper_bound_search =
     Inr as_upper_bound_search"
| "find_as_loop (Suc n) s target_mu pu as_lower_bound as_upper_bound_search =
     (let as_guess = (as_lower_bound + as_upper_bound_search) / 2.0
      in if as_upper_bound_search - as_lower_bound < 1 / 1000000000
         then Inr as_upper_bound_search
         else
           (case analyze_section s as_guess pu 0 of
              Inl e \<Rightarrow> Inl e
            | Inr r \<Rightarrow>
                (if phi_mn r < target_mu
                 then find_as_loop n s target_mu pu as_guess as_upper_bound_search
                 else find_as_loop n s target_mu pu as_lower_bound as_guess)))"

definition find_as_for_mu :: "BaseSection \<Rightarrow> real \<Rightarrow> real \<Rightarrow> real \<Rightarrow> error + real" where
  "find_as_for_mu s target_mu pu as_upper_bound =
     (if target_mu < 0 then Inl ValueError
      else find_as_loop 100 s target_mu pu 0.0 as_upper_bound)"

subsection \<open>Public operations\<close>

definition get_maximum_capacity :: "BaseSection \<Rightarrow> real \<Rightarrow> error + CapacityResult" where
  "get_maximum_capacity s pu =
     (case check_axial_load_limit s pu of
        Inl e \<Rightarrow> Inl e
      | Inr _ \<Rightarrow>
          (let conc = concrete s; st = tension_steel s;
               et_min = min_allowable_tensile_strain st;
               c_max = (ultimate_strain conc / (ultimate_strain conc + et_min))
                         * effective_depth s;
               a_max = beta1 conc * c_max;
               Cc = (if is_TSection s then
                       (if is_less_or_equal a_max (flange_depth s)
                        then eta conc * 0.85 * fck conc * a_max * flange_width s
                        else
                          (let Ccf = eta conc * 0.85 * fck conc
                                       * (flange_width s - web_width s) * flange_depth s;
                               Ccw = eta conc * 0.85 * fck conc * web_width s * a_max
                           in Ccf + Ccw))
                     else eta conc * 0.85 * fck conc * a_max * width s);
               As_max = (Cc + pu) / fy st
           in if As_max < 0 then Inl SectionCapacityError
              else
                (case analyze_section s As_max pu 0 of
                   Inl e \<Rightarrow> Inl e
                 | Inr result \<Rightarrow> Inr (CapacityResult As_max (phi_mn result) result))))"

definition design_flexural_reinforcement ::
  "BaseSection \<Rightarrow> real \<Rightarrow> real \<Rightarrow> error + DesignResult" where
  "design_flexural_reinforcement s mu pu =
     (if mu < 0 then Inl ValueError
      else
        (case check_axial_load_limit s pu of
           Inl e \<Rightarrow> Inl e
         | Inr _ \<Rightarrow>
        (case get_maximum_capacity s pu of
           Inl e \<Rightarrow> Inl e
         | Inr max_capacity \<Rightarrow>
        (let As_max = CapacityResult.as_max max_capacity;
             max_phi_mn = CapacityResult.max_phi_mn max_capacity
         in
        (case cracking_moment s of
           Inl e \<Rightarrow> Inl e
         | Inr mcr \<Rightarrow>
        (let mcr_check_val = MIN_FLEXURAL_STRENGTH_FACTOR * mcr in
        (case (if mcr_check_val > 0 then find_as_for_mu s mcr_check_val pu As_max
               else Inr 0.0) of
           Inl e \<Rightarrow> Inl e
         | Inr As_min \<Rightarrow>
        (if \<not> is_less_or_equal mu max_phi_mn then Inl SectionCapacityError
         else
        (case find_as_for_mu s mu pu As_max of
           Inl e \<Rightarrow> Inl e
         | Inr as_strength \<Rightarrow>
        (let as_req = max as_strength As_min;
             is_min_controlled =
               (is_greater_or_equal as_req As_min \<and> \<not> is_equal as_req as_strength)
         in
        (case analyze_section s as_req pu 0 of
           Inl e \<Rightarrow> Inl e
         | Inr result \<Rightarrow>
             Inr (DesignResult as_req As_min As_max is_min_controlled result))))))))))))"

definition check_section_adequacy ::
  "BaseSection \<Rightarrow> real \<Rightarrow> real \<Rightarrow> real \<Rightarrow> error + CheckResult" where
  "check_section_adequacy s as_provided mu pu =
     (if as_provided < 0 then Inl ValueError
      else
        (case analyze_section s as_provided pu 0 of
           Inl e \<Rightarrow> Inl e
         | Inr result \<Rightarrow>
        (let st = tension_steel s;
             str_ok = is_greater_or_equal (phi_mn result) mu;
             duct_ok = is_greater_or_equal (net_tensile_strain result)
                         (min_allowable_tensile_strain st)
         in
        (case cracking_moment s of
           Inl e \<Rightarrow> Inl e
         | Inr mcr \<Rightarrow>
        (let mcr_check_val = MIN_FLEXURAL_STRENGTH_FACTOR * mcr;
             minr_ok = is_greater_or_equal (phi_mn result) mcr_check_val;
             ok = (str_ok \<and> duct_ok \<and> minr_ok)
         in Inr (CheckResult ok str_ok duct_ok minr_ok result))))))"

subsection \<open>Named intermediate quantities\<close>

text \<open>
  Sub-expressions of the functions above, named so that statements can refer to them:
  the uniform stress \<open>eta * 0.85 * fck\<close> of the equivalent stress block; the limiting
  depths \<open>c_max\<close> and \<open>a_max\<close> of \<^verbatim>\<open>get_maximum_capacity\<close>; and the trial depths
  \<open>c_rect_assumption\<close> and \<open>a\<close> that STEP 1 of \<^verbatim>\<open>_analyze_tsection\<close> computes with the full
  flange width and compares with the flange depth.
\<close>

definition block_stress :: "concrete \<Rightarrow> real" where
  "block_stress conc = eta conc * 0.85 * fck conc"

definition c_max :: "BaseSection \<Rightarrow> real" where
  "c_max s =
     (ultimate_strain (concrete s) /
        (ultimate_strain (concrete s) + min_allowable_tensile_strain (tension_steel s)))
     * effective_depth s"

definition a_max :: "BaseSection \<Rightarrow> real" where
  "a_max s = beta1 (concrete s) * c_max s"

definition c_rect_assumption :: "BaseSection \<Rightarrow> real \<Rightarrow> real \<Rightarrow> real" where
  "c_rect_assumption s As Pu =
     (As * fy (tension_steel s) - Pu) /
     (eta (concrete s) * 0.85 * fck (concrete s) * beta1 (concrete s) * flange_width s)"

definition a_rect_assumption :: "BaseSection \<Rightarrow> real \<Rightarrow> real \<Rightarrow> real" where
  "a_rect_assumption s As Pu = beta1 (concrete s) * c_rect_assumption s As Pu"

subsection \<open>Example sections\<close>

text \<open>
  The singly reinforced beam of the usage example in \<^verbatim>\<open>rectangular.py\<close> (400 by 600 mm,
  cover 50, stirrup 13, bar 25, SD400), here with \<open>fck = 25\<close>.
\<close>

definition example_beam :: BaseSection where
  "example_beam = RectangularSection 400 600 50 13 25 (Concrete 25 2300 1) (Steel SD400)"

text \<open>
  The T-beam of the usage example in \<^verbatim>\<open>tshape.py\<close> (web 400, height 800, flange 1000 by
  150 mm, cover 40, stirrup 10, bar 25, \<open>fck = 30\<close>, SD500).
\<close>

definition example_tee :: BaseSection where
  "example_tee = TSection 800 400 1000 150 40 10 25 (Concrete 30 2300 1) (Steel SD500)"

text \<open>
  Two T-sections that pass every check of \<^verbatim>\<open>TSection.__post_init__\<close> (which asks only for
  non-negative dimensions) although their web has no width: a flange of 1000 by 100 mm
  on a web of width zero, and a section of no flange depth, no web width and an effective
  depth of 1e-9 mm, whose gross area is zero.
\<close>

definition webless_tee :: BaseSection where
  "webless_tee = TSection 600 0 1000 100 50 13 25 (Concrete 25 2300 1) (Steel SD400)"

definition zero_area_tee :: BaseSection where
  "zero_area_tee =
     TSection (1 / 1000000000) 0 1 0 0 0 0 (Concrete 25 2300 1) (Steel SD400)"

section \<open>Properties\<close>

subsection \<open>Material facts\<close>

lemmas steel_defs = fy_def compression_controlled_limit_strain_def
  tension_controlled_limit_strain_def min_allowable_tensile_strain_def yield_strain_def
  Es_def STEEL_ELASTIC_MODULUS_def

lemmas concrete_defs = eta_def beta1_def ultimate_strain_def

lemmas helper_defs = is_greater_or_equal_def is_less_or_equal_def is_equal_def TOLERANCE_def

lemmas phi_defs = PHI_TENSION_CONTROLLED_def PHI_COMPRESSION_CONTROLLED_TIED_def

lemma fy_cases: "fy st = 300 \<or> fy st = 350 \<or> fy st = 400 \<or> fy st = 500 \<or> fy st = 600"
  by (cases st; cases "grade st") (simp_all add: fy_def)

lemma limit_strain_gap:
  "tension_controlled_limit_strain st - compression_controlled_limit_strain st \<ge> 3 / 1000"
  using fy_cases [of st] by (auto simp: steel_defs)

lemma phi_constants_ordered: "PHI_COMPRESSION_CONTROLLED_TIED \<le> PHI_TENSION_CONTROLLED"
  by (simp add: phi_defs)

subsection \<open>Strength-reduction factor\<close>

lemma calculate_phi_interpolation_range:
  assumes hi: "\<not> is_greater_or_equal et (tension_controlled_limit_strain st)"
    and lo: "\<not> is_less_or_equal et (compression_controlled_limit_strain st)"
  shows "compression_controlled_limit_strain st < et"
    and "et < tension_controlled_limit_strain st"
  using hi lo by (simp_all add: helper_defs)

lemma calculate_phi_bounds:
  "PHI_COMPRESSION_CONTROLLED_TIED \<le> calculate_phi st et \<and>
   calculate_phi st et \<le> PHI_TENSION_CONTROLLED"
proof -
  let ?lo = "compression_controlled_limit_strain st"
  let ?hi = "tension_controlled_limit_strain st"
  let ?C = PHI_COMPRESSION_CONTROLLED_TIED
  let ?T = PHI_TENSION_CONTROLLED
  show ?thesis
  proof (cases "is_greater_or_equal et ?hi")
    case True
    then show ?thesis
      using phi_constants_ordered by (simp add: calculate_phi_def)
  next
    case hi: False
    show ?thesis
    proof (cases "is_less_or_equal et ?lo")
      case True
      with hi show ?thesis
        using phi_constants_ordered by (simp add: calculate_phi_def)
    next
      case lo: False
      define r where "r = (et - ?lo) / (?hi - ?lo)"
      from calculate_phi_interpolation_range [OF hi lo]
      have b: "?lo < et" and a: "et < ?hi" by simp_all
      from a b have pos: "0 < ?hi - ?lo" by simp
      have r0: "0 \<le> r" using b pos by (simp add: r_def)
      have r1: "r \<le> 1" using a pos by (simp add: r_def)
      have eq: "calculate_phi st et = ?C + (?T - ?C) * r"
        using hi lo by (simp add: calculate_phi_def Let_def r_def)
      have w: "0 \<le> ?T - ?C" using phi_constants_ordered by simp
      have "0 \<le> (?T - ?C) * r" using w r0 by (rule mult_nonneg_nonneg)
      moreover have "(?T - ?C) * r \<le> (?T - ?C) * 1" using r1 w by (rule mult_left_mono)
      ultimately show ?thesis unfolding eq by simp
    qed
  qed
qed

text \<open>
  C8: the strength-reduction factor is determined by the net tensile strain and the two
  limit strains of the steel alone.  It is the tension-controlled constant when the strain
  is at least the tension-controlled limit, the compression-controlled (tied) constant when
  the strain is at most the compression-controlled limit, and the linear interpolation in
  between; the two boundary tests are the tolerance comparisons (absolute tolerance 1e-9)
  of the helpers, so each constant also applies within 1e-9 of its limit.
\<close>

theorem calculate_phi_rule:
  "calculate_phi st et =
     (if et - tension_controlled_limit_strain st > - (1 / 1000000000)
        then PHI_TENSION_CONTROLLED
      else if et - compression_controlled_limit_strain st < 1 / 1000000000
        then PHI_COMPRESSION_CONTROLLED_TIED
      else PHI_COMPRESSION_CONTROLLED_TIED +
           (PHI_TENSION_CONTROLLED - PHI_COMPRESSION_CONTROLLED_TIED) *
           (et - compression_controlled_limit_strain st) /
           (tension_controlled_limit_strain st - compression_controlled_limit_strain st))
   \<and> (tension_controlled_limit_strain st \<le> et1 \<longrightarrow>
        calculate_phi st et1 = PHI_TENSION_CONTROLLED)
   \<and> (et2 \<le> compression_controlled_limit_strain st \<longrightarrow>
        calculate_phi st et2 = PHI_COMPRESSION_CONTROLLED_TIED)
   \<and> (compression_controlled_limit_strain st + 1 / 1000000000 \<le> et3 \<and>
        et3 \<le> tension_controlled_limit_strain st - 1 / 1000000000 \<longrightarrow>
        calculate_phi st et3 =
          PHI_COMPRESSION_CONTROLLED_TIED +
          (PHI_TENSION_CONTROLLED - PHI_COMPRESSION_CONTROLLED_TIED) *
          (et3 - compression_controlled_limit_strain st) /
          (tension_controlled_limit_strain st - compression_controlled_limit_strain st))"
proof (intro conjI impI)
  show "calculate_phi st et =
     (if et - tension_controlled_limit_strain st > - (1 / 1000000000)
        then PHI_TENSION_CONTROLLED
      else if et - compression_controlled_limit_strain st < 1 / 1000000000
        then PHI_COMPRESSION_CONTROLLED_TIED
      else PHI_COMPRESSION_CONTROLLED_TIED +
           (PHI_TENSION_CONTROLLED - PHI_COMPRESSION_CONTROLLED_TIED) *
           (et - compression_controlled_limit_strain st) /
           (tension_controlled_limit_strain st - compression_controlled_limit_strain st))"
    by (simp add: calculate_phi_def Let_def helper_defs)
next
  assume "tension_controlled_limit_strain st \<le> et1"
  then have "is_greater_or_equal et1 (tension_controlled_limit_strain st)"
    by (simp add: helper_defs)
  then show "calculate_phi st et1 = PHI_TENSION_CONTROLLED"
    by (simp add: calculate_phi_def)
next
  assume le: "et2 \<le> compression_controlled_limit_strain st"
  with limit_strain_gap [of st]
  have "\<not> is_greater_or_equal et2 (tension_controlled_limit_strain st)"
    by (simp add: helper_defs)
  moreover from le have "is_less_or_equal et2 (compression_controlled_limit_strain st)"
    by (simp add: helper_defs)
  ultimately show "calculate_phi st et2 = PHI_COMPRESSION_CONTROLLED_TIED"
    by (simp add: calculate_phi_def)
next
  assume mid: "compression_controlled_limit_strain st + 1 / 1000000000 \<le> et3 \<and>
        et3 \<le> tension_controlled_limit_strain st - 1 / 1000000000"
  then have "\<not> is_greater_or_equal et3 (tension_controlled_limit_strain st)"
    and "\<not> is_less_or_equal et3 (compression_controlled_limit_strain st)"
    by (simp_all add: helper_defs)
  then show "calculate_phi st et3 =
          PHI_COMPRESSION_CONTROLLED_TIED +
          (PHI_TENSION_CONTROLLED - PHI_COMPRESSION_CONTROLLED_TIED) *
          (et3 - compression_controlled_limit_strain st) /
          (tension_controlled_limit_strain st - compression_controlled_limit_strain st)"
    by (simp add: calculate_phi_def Let_def)
qed

theorem calculate_phi_rule_witness:
  "tension_controlled_limit_strain (Steel SD400) \<le> 6 / 1000 \<and>
   calculate_phi (Steel SD400) (6 / 1000) = 85 / 100 \<and>
   1 / 1000 \<le> compression_controlled_limit_strain (Steel SD400) \<and>
   calculate_phi (Steel SD400) (1 / 1000) = 65 / 100 \<and>
   compression_controlled_limit_strain (Steel SD400) + 1 / 1000000000 \<le> 4 / 1000 \<and>
   4 / 1000 \<le> tension_controlled_limit_strain (Steel SD400) - 1 / 1000000000 \<and>
   calculate_phi (Steel SD400) (4 / 1000) = 47 / 60"
  using calculate_phi_rule [of "Steel SD400" "4 / 1000" "6 / 1000" "1 / 1000" "4 / 1000"]
  by (simp add: steel_defs phi_defs)

subsection \<open>Rectangular section analysis\<close>

text \<open>
  C1: for a rectangular section the analysis solves the neutral-axis depth
  \<open>c = (As * fy - Pu) / (eta * 0.85 * fck * beta1 * b)\<close>; it fails with
  \<open>SectionCapacityError\<close> when the absolute value of that denominator is below 1e-9 or when
  \<open>c \<le> 0\<close>; otherwise it returns \<open>c\<close>, the net tensile strain \<open>ecu * (d - c) / c\<close>, the
  factor \<open>phi\<close> for that strain and \<open>phi * Mn\<close> with \<open>a = beta1 * c\<close>,
  \<open>Cc = eta * 0.85 * fck * a * b\<close> and \<open>Mn = Cc * (d - a / 2) + Pu * (d - h / 2)\<close>.
\<close>

theorem analyze_rectangular_contract:
  assumes "is_RectangularSection s"
  shows "analyze_section s As Pu 0 =
     (let denominator =
            eta (concrete s) * 0.85 * fck (concrete s) * beta1 (concrete s) * width s;
          cc = (As * fy (tension_steel s) - Pu) / denominator;
          et = ultimate_strain (concrete s) * (effective_depth s - cc) / cc;
          a = beta1 (concrete s) * cc;
          Cc = eta (concrete s) * 0.85 * fck (concrete s) * a * width s;
          Mn = Cc * (effective_depth s - a / 2) + Pu * (effective_depth s - height s / 2)
      in if \<bar>denominator\<bar> < 1 / 1000000000 \<or> cc \<le> 0 then Inl SectionCapacityError
         else Inr (AnalysisResult cc et (calculate_phi (tension_steel s) et)
                     (calculate_phi (tension_steel s) et * Mn)))"
  using assms by (simp add: analyze_section_def analyze_rectangular_def Let_def)

theorem analyze_rectangular_contract_witness:
  "is_RectangularSection example_beam \<and>
   analyze_section example_beam 2000 0 0 =
     Inr (AnalysisResult (2000 / 17) (456489 / 40000000) (17 / 20) 324660000)"
  using analyze_rectangular_contract [of example_beam 2000 0]
  by (simp add: example_beam_def Let_def effective_depth_def concrete_defs steel_defs
      calculate_phi_def helper_defs phi_defs)

subsection \<open>Example evaluations\<close>

lemma sqrt_25: "sqrt 25 = 5"
  by (rule real_sqrt_unique) simp_all

lemma cracking_moment_example_beam: "cracking_moment example_beam = Inr 75600000"
  by (simp add: cracking_moment_def Ig_def example_beam_def modulus_of_rupture_def Let_def
      sqrt_25)

lemma valid_example_beam: "valid_section example_beam"
  by (simp add: example_beam_def valid_section_def valid_concrete_def effective_depth_def)

lemma analyze_example_beam_2000:
  "analyze_section example_beam 2000 0 0 =
     Inr (AnalysisResult (2000 / 17) (456489 / 40000000) (17 / 20) 324660000)"
  by (simp add: example_beam_def analyze_section_def analyze_rectangular_def Let_def
      effective_depth_def concrete_defs steel_defs calculate_phi_def helper_defs phi_defs)

subsection \<open>Which exceptions the analysis and the cracking moment raise\<close>

lemma analyze_section_errors:
  "analyze_section s As Pu 0 = Inl e \<Longrightarrow> e = SectionCapacityError"
  by (cases s)
     (auto simp: analyze_section_def analyze_rectangular_def analyze_tsection_def
        tsection_web_case_def Let_def split: if_splits sum.splits prod.splits)

lemma cracking_moment_errors:
  "cracking_moment s = Inl e \<Longrightarrow> e = ZeroDivisionError"
  by (auto simp: cracking_moment_def Ig_def centroid_y_def Let_def
      split: if_splits sum.splits)

subsection \<open>Adequacy check\<close>

text \<open>
  C5 (as amended): \<open>check_section_adequacy\<close> raises \<open>ValueError\<close> exactly when
  \<open>as_provided < 0\<close>.  For \<open>as_provided \<ge> 0\<close> it raises \<open>SectionCapacityError\<close> exactly when
  the section analysis at that area does (degenerate denominator, or neutral-axis depth
  \<open>c \<le> 0\<close>), and when the analysis and the cracking moment are computed it returns the
  record of the three tolerance verdicts, their conjunction and the full analysis.
\<close>

theorem check_section_adequacy_outcomes:
  "((check_section_adequacy s as_provided mu pu = Inl ValueError) = (as_provided < 0)) \<and>
   ((check_section_adequacy s as_provided mu pu = Inl SectionCapacityError) =
      (0 \<le> as_provided \<and> analyze_section s as_provided pu 0 = Inl SectionCapacityError)) \<and>
   (0 \<le> as_provided' \<and> analyze_section s' as_provided' pu' 0 = Inr r \<and>
    cracking_moment s' = Inr mcr \<longrightarrow>
      check_section_adequacy s' as_provided' mu' pu' =
        Inr (CheckResult
              (is_greater_or_equal (phi_mn r) mu' \<and>
               is_greater_or_equal (net_tensile_strain r)
                 (min_allowable_tensile_strain (tension_steel s')) \<and>
               is_greater_or_equal (phi_mn r) (MIN_FLEXURAL_STRENGTH_FACTOR * mcr))
              (is_greater_or_equal (phi_mn r) mu')
              (is_greater_or_equal (net_tensile_strain r)
                 (min_allowable_tensile_strain (tension_steel s')))
              (is_greater_or_equal (phi_mn r) (MIN_FLEXURAL_STRENGTH_FACTOR * mcr))
              r))"
proof (intro conjI impI)
  show "(check_section_adequacy s as_provided mu pu = Inl ValueError) = (as_provided < 0)"
    by (auto simp: check_section_adequacy_def Let_def split: sum.splits
        dest: analyze_section_errors cracking_moment_errors)
next
  show "(check_section_adequacy s as_provided mu pu = Inl SectionCapacityError) =
      (0 \<le> as_provided \<and> analyze_section s as_provided pu 0 = Inl SectionCapacityError)"
    by (auto simp: check_section_adequacy_def Let_def split: sum.splits
        dest: analyze_section_errors cracking_moment_errors)
next
  assume "0 \<le> as_provided' \<and> analyze_section s' as_provided' pu' 0 = Inr r \<and>
    cracking_moment s' = Inr mcr"
  then show "check_section_adequacy s' as_provided' mu' pu' =
        Inr (CheckResult
              (is_greater_or_equal (phi_mn r) mu' \<and>
               is_greater_or_equal (net_tensile_strain r)
                 (min_allowable_tensile_strain (tension_steel s')) \<and>
               is_greater_or_equal (phi_mn r) (MIN_FLEXURAL_STRENGTH_FACTOR * mcr))
              (is_greater_or_equal (phi_mn r) mu')
              (is_greater_or_equal (net_tensile_strain r)
                 (min_allowable_tensile_strain (tension_steel s')))
              (is_greater_or_equal (phi_mn r) (MIN_FLEXURAL_STRENGTH_FACTOR * mcr))
              r)"
    by (simp add: check_section_adequacy_def Let_def)
qed

theorem check_section_adequacy_outcomes_witness:
  "check_section_adequacy example_beam 0 100000000 0 = Inl SectionCapacityError \<and>
   (0::real) \<le> 2000 \<and>
   analyze_section example_beam 2000 0 0 =
     Inr (AnalysisResult (2000 / 17) (456489 / 40000000) (17 / 20) 324660000) \<and>
   cracking_moment example_beam = Inr 75600000 \<and>
   check_section_adequacy example_beam 2000 300000000 0 =
     Inr (CheckResult True True True True
            (AnalysisResult (2000 / 17) (456489 / 40000000) (17 / 20) 324660000))"
  using check_section_adequacy_outcomes [of example_beam 0 100000000 0 2000 example_beam 0
      "AnalysisResult (2000 / 17) (456489 / 40000000) (17 / 20) 324660000" 75600000 300000000]
    analyze_example_beam_2000 cracking_moment_example_beam
  apply (simp add: helper_defs steel_defs MIN_FLEXURAL_STRENGTH_FACTOR_def)
  apply (simp add: example_beam_def analyze_section_def analyze_rectangular_def Let_def
      effective_depth_def concrete_defs steel_defs)
  done

text \<open>
  The claim as first stated (no failure but \<open>ValueError\<close>) does not hold: with no steel at
  all, which is an admissible \<open>as_provided\<close>, the neutral-axis depth is zero and the check
  of the example beam fails with \<open>SectionCapacityError\<close>; so it does with 2000 square
  millimetres of steel under a compressive force of 1000 kN, where \<open>As * fy < Pu\<close>.
\<close>

theorem check_section_adequacy_counterexample:
  "valid_section example_beam \<and> (0::real) \<le> 0 \<and>
   check_section_adequacy example_beam 0 100000000 0 = Inl SectionCapacityError \<and>
   (0::real) \<le> 2000 \<and>
   check_section_adequacy example_beam 2000 100000000 1000000 = Inl SectionCapacityError"
  by (simp add: check_section_adequacy_def example_beam_def analyze_section_def
      analyze_rectangular_def Let_def valid_section_def valid_concrete_def
      effective_depth_def concrete_defs steel_defs)

subsection \<open>Axial-load precheck\<close>

lemma tensile_axial_force_not_checked:
  "pu \<le> 0 \<Longrightarrow> check_axial_load_limit s pu = Inr ()"
  by (simp add: check_axial_load_limit_def)

lemma axial_precheck_fails:
  "0 < pu \<Longrightarrow> get_max_axial_capacity s 0.01 < pu \<Longrightarrow>
   check_axial_load_limit s pu = Inl SectionCapacityError"
  by (simp add: check_axial_load_limit_def Let_def)

lemma get_maximum_capacity_precheck:
  "0 < pu \<Longrightarrow> get_max_axial_capacity s 0.01 < pu \<Longrightarrow>
   get_maximum_capacity s pu = Inl SectionCapacityError"
  by (simp add: get_maximum_capacity_def axial_precheck_fails)

lemma design_flexural_reinforcement_precheck:
  "0 \<le> mu \<Longrightarrow> 0 < pu \<Longrightarrow> get_max_axial_capacity s 0.01 < pu \<Longrightarrow>
   design_flexural_reinforcement s mu pu = Inl SectionCapacityError"
  by (simp add: design_flexural_reinforcement_def axial_precheck_fails)

lemma get_max_axial_capacity_formula:
  "get_max_axial_capacity s 0.01 =
     0.80 * PHI_COMPRESSION_CONTROLLED_TIED *
       (0.85 * fck (concrete s) * (gross_area s - 0.01 * gross_area s) +
        fy (tension_steel s) * (0.01 * gross_area s))"
  by (simp add: get_max_axial_capacity_def Let_def)

text \<open>
  C4: every public operation taking an axial force is claimed to fail with
  \<open>SectionCapacityError\<close>, before any analysis, when a compressive \<open>pu\<close> exceeds the coarse
  axial capacity.  \<open>get_maximum_capacity\<close> and \<open>design_flexural_reinforcement\<close> do (lemmas
  above); \<open>check_section_adequacy\<close> never calls the precheck.  For the example beam the
  bound is 3124680 N; at \<open>pu = 10000000\<close> the two design operations fail, while the check
  of 28750 square millimetres of steel analyses the section and reports it adequate.
\<close>

theorem check_section_adequacy_skips_axial_precheck:
  "(0::real) < 10000000 \<and>
   get_max_axial_capacity example_beam 0.01 = 3124680 \<and>
   check_axial_load_limit example_beam 10000000 = Inl SectionCapacityError \<and>
   get_maximum_capacity example_beam 10000000 = Inl SectionCapacityError \<and>
   design_flexural_reinforcement example_beam 2000000000 10000000 =
     Inl SectionCapacityError \<and>
   check_section_adequacy example_beam 28750 2000000000 10000000 =
     Inr (CheckResult True True True True
            (AnalysisResult (3750 / 17) (113663 / 25000000) (102471 / 125000)
               (40406159778 / 17)))"
proof -
  have cap: "get_max_axial_capacity example_beam (1 / 100) = 3124680"
    by (simp add: get_max_axial_capacity_def Let_def example_beam_def gross_area_def
        steel_defs phi_defs)
  have lim: "check_axial_load_limit example_beam 10000000 = Inl SectionCapacityError"
    by (simp add: check_axial_load_limit_def Let_def cap)
  have an: "analyze_section example_beam 28750 10000000 0 =
      Inr (AnalysisResult (3750 / 17) (113663 / 25000000) (102471 / 125000)
             (40406159778 / 17))"
    by (simp add: example_beam_def analyze_section_def analyze_rectangular_def Let_def
        effective_depth_def concrete_defs steel_defs calculate_phi_def helper_defs phi_defs)
  have chk: "check_section_adequacy example_beam 28750 2000000000 10000000 =
     Inr (CheckResult True True True True
            (AnalysisResult (3750 / 17) (113663 / 25000000) (102471 / 125000)
               (40406159778 / 17)))"
    by (simp add: check_section_adequacy_def Let_def an cracking_moment_example_beam
        helper_defs MIN_FLEXURAL_STRENGTH_FACTOR_def)
       (simp add: example_beam_def steel_defs)
  show ?thesis
    by (simp add: cap lim chk get_maximum_capacity_def design_flexural_reinforcement_def)
qed

subsection \<open>Inversion search and design\<close>

lemma find_as_loop_bounds:
  "lo \<le> hi \<Longrightarrow> find_as_loop n s target_mu pu lo hi = Inr v \<Longrightarrow> lo \<le> v \<and> v \<le> hi"
proof (induction n arbitrary: lo hi)
  case 0
  then show ?case by simp
next
  case (Suc n)
  let ?g = "(lo + hi) / 2"
  from Suc.prems(1) have g: "lo \<le> ?g" "?g \<le> hi" by simp_all
  show ?case
  proof (cases "hi - lo < 1 / 1000000000")
    case True
    with Suc.prems show ?thesis by simp
  next
    case wide: False
    show ?thesis
    proof (cases "analyze_section s ?g pu 0")
      case (Inl e)
      with wide Suc.prems(2) show ?thesis by simp
    next
      case (Inr r)
      show ?thesis
      proof (cases "phi_mn r < target_mu")
        case True
        with wide Inr Suc.prems(2) have "find_as_loop n s target_mu pu ?g hi = Inr v"
          by simp
        from Suc.IH [OF g(2) this] g(1) show ?thesis by simp
      next
        case False
        with wide Inr Suc.prems(2) have "find_as_loop n s target_mu pu lo ?g = Inr v"
          by simp
        from Suc.IH [OF g(1) this] g(2) show ?thesis by simp
      qed
    qed
  qed
qed

lemma find_as_loop_errors:
  "find_as_loop n s target_mu pu lo hi = Inl e \<Longrightarrow> e = SectionCapacityError"
proof (induction n arbitrary: lo hi)
  case 0
  then show ?case by simp
next
  case (Suc n)
  then show ?case
    by (auto simp: Let_def split: if_splits sum.splits dest: analyze_section_errors)
qed

lemma find_as_for_mu_bounds:
  "0 \<le> ub \<Longrightarrow> find_as_for_mu s target_mu pu ub = Inr v \<Longrightarrow> 0 \<le> v \<and> v \<le> ub"
  using find_as_loop_bounds [of 0 ub 100 s target_mu pu v]
  by (simp add: find_as_for_mu_def split: if_splits)

lemma find_as_for_mu_negative_bound:
  "0 \<le> target_mu \<Longrightarrow> ub < 0 \<Longrightarrow> find_as_for_mu s target_mu pu ub = Inr ub"
  by (simp add: find_as_for_mu_def eval_nat_numeral)

lemma find_as_for_mu_errors:
  "0 \<le> target_mu \<Longrightarrow> find_as_for_mu s target_mu pu ub = Inl e \<Longrightarrow>
   e = SectionCapacityError"
  by (auto simp: find_as_for_mu_def dest: find_as_loop_errors)

lemma get_maximum_capacity_as_max_nonneg:
  "get_maximum_capacity s pu = Inr cap \<Longrightarrow> 0 \<le> CapacityResult.as_max cap"
  by (auto simp: get_maximum_capacity_def Let_def split: sum.splits if_splits)

lemma design_result_fields:
  assumes "design_flexural_reinforcement s mu pu = Inr res"
  shows "\<exists>cap as_strength.
           get_maximum_capacity s pu = Inr cap \<and>
           DesignResult.as_max res = CapacityResult.as_max cap \<and>
           find_as_for_mu s mu pu (DesignResult.as_max res) = Inr as_strength \<and>
           as_required res = max as_strength (as_min res) \<and>
           (as_min res = 0 \<or>
            (\<exists>t. find_as_for_mu s t pu (DesignResult.as_max res) = Inr (as_min res)))"
  using assms
  by (auto simp: design_flexural_reinforcement_def Let_def split: sum.splits if_splits)

lemma analyze_example_beam_unloaded:
  "0 < x \<Longrightarrow> analyze_section example_beam x 0 0 =
   (let cc = x / 17; et = (33 / 10000) * (1049 / 2 - cc) / cc;
        ph = calculate_phi (Steel SD400) et
    in Inr (AnalysisResult cc et ph (ph * (400 * x * (1049 / 2 - 2 * x / 85)))))"
  by (simp add: example_beam_def analyze_section_def analyze_rectangular_def Let_def
      effective_depth_def concrete_defs steel_defs field_simps)

lemma get_maximum_capacity_example_beam:
  "get_maximum_capacity example_beam 0 =
     Inr (CapacityResult (588489 / 146) (2891755892311 / 5329)
            (AnalysisResult (34617 / 146) (1 / 250) (47 / 60) (2891755892311 / 5329)))"
  by (simp add: get_maximum_capacity_def check_axial_load_limit_def Let_def
      example_beam_def analyze_section_def analyze_rectangular_def effective_depth_def
      concrete_defs calculate_phi_def helper_defs phi_defs steel_defs)

lemma find_as_min_example_beam:
  "find_as_for_mu example_beam 90720000 0 (588489 / 146) =
     Inr (167236148388524523 / 321057395310592)"
  by (simp add: find_as_for_mu_def eval_nat_numeral analyze_example_beam_unloaded Let_def
      calculate_phi_def helper_defs phi_defs steel_defs)

lemma find_as_strength_example_beam:
  "find_as_for_mu example_beam 200000000 0 (588489 / 146) =
     Inr (380277249573299133 / 321057395310592)"
  by (simp add: find_as_for_mu_def eval_nat_numeral analyze_example_beam_unloaded Let_def
      calculate_phi_def helper_defs phi_defs steel_defs)

lemma design_example_beam:
  "design_flexural_reinforcement example_beam 200000000 0 =
     Inr (DesignResult (380277249573299133 / 321057395310592)
            (167236148388524523 / 321057395310592) (588489 / 146) False
            (AnalysisResult (22369249974899949 / 321057395310592)
               (27840868229839 / 1292385242794000) (17 / 20)
               (2576946277092092385158039147095639671 / 12884731385452717744018423808)))"
  by (simp add: design_flexural_reinforcement_def check_axial_load_limit_def
      get_maximum_capacity_example_beam cracking_moment_example_beam
      MIN_FLEXURAL_STRENGTH_FACTOR_def find_as_min_example_beam
      find_as_strength_example_beam helper_defs Let_def analyze_example_beam_unloaded
      calculate_phi_def phi_defs steel_defs)

lemma find_as_loop_returns:
  assumes an: "\<And>A. 0 < A \<Longrightarrow> A \<le> ub \<Longrightarrow> \<exists>r. analyze_section s A pu 0 = Inr r"
  shows "0 \<le> lo \<Longrightarrow> lo \<le> hi \<Longrightarrow> hi \<le> ub \<Longrightarrow>
         \<exists>v. find_as_loop n s target_mu pu lo hi = Inr v"
proof (induction n arbitrary: lo hi)
  case 0
  then show ?case by simp
next
  case (Suc n)
  let ?g = "(lo + hi) / 2"
  show ?case
  proof (cases "hi - lo < 1 / 1000000000")
    case True
    then show ?thesis by simp
  next
    case wide: False
    with Suc.prems have g: "0 < ?g" "lo \<le> ?g" "?g \<le> hi" "?g \<le> ub" by simp_all
    from an [OF g(1) g(4)] obtain r where r: "analyze_section s ?g pu 0 = Inr r" ..
    show ?thesis
    proof (cases "phi_mn r < target_mu")
      case True
      from Suc.IH [of ?g hi] g Suc.prems
      obtain v where "find_as_loop n s target_mu pu ?g hi = Inr v" by auto
      with wide r True show ?thesis by simp
    next
      case False
      from Suc.IH [of lo ?g] g Suc.prems
      obtain v where "find_as_loop n s target_mu pu lo ?g = Inr v" by auto
      with wide r False show ?thesis by simp
    qed
  qed
qed

lemma find_as_for_mu_returns:
  assumes "0 \<le> target_mu" and "0 \<le> ub"
    and "\<And>A. 0 < A \<Longrightarrow> A \<le> ub \<Longrightarrow> \<exists>r. analyze_section s A pu 0 = Inr r"
  shows "\<exists>v. find_as_for_mu s target_mu pu ub = Inr v"
  using find_as_loop_returns [of ub s pu 0 ub 100 target_mu] assms
  by (simp add: find_as_for_mu_def)

lemma analyze_example_beam_succeeds:
  "\<forall>A. 0 < A \<and> A \<le> 588489 / 146 \<longrightarrow> (\<exists>r. analyze_section example_beam A 0 0 = Inr r)"
  by (simp add: analyze_example_beam_unloaded Let_def)

text \<open>
  C10: the bounded bisection returns a value within \<open>[0, as_upper_bound]\<close> (for a
  non-negative upper bound, which is what the design passes); it does return one for a
  non-negative target whenever the analysis succeeds at every area of the bracket.  So
  every successful design returns \<open>as_required = max as_strength as_min\<close> with
  \<open>0 \<le> as_required \<le> as_max\<close>: no more steel than the ductility-governed maximum is ever
  prescribed, also when the minimum reinforcement governs.
\<close>

theorem design_area_within_bounds:
  "(0 \<le> as_upper_bound \<and> find_as_for_mu s target_mu pu as_upper_bound = Inr v \<longrightarrow>
      0 \<le> v \<and> v \<le> as_upper_bound) \<and>
   (0 \<le> target_mu' \<and> 0 \<le> as_upper_bound' \<and>
    (\<forall>A. 0 < A \<and> A \<le> as_upper_bound' \<longrightarrow> (\<exists>r. analyze_section s'' A pu'' 0 = Inr r)) \<longrightarrow>
      (\<exists>w. find_as_for_mu s'' target_mu' pu'' as_upper_bound' = Inr w)) \<and>
   (design_flexural_reinforcement s' mu pu' = Inr res \<longrightarrow>
      (\<exists>as_strength.
          find_as_for_mu s' mu pu' (DesignResult.as_max res) = Inr as_strength \<and>
          as_required res = max as_strength (as_min res)) \<and>
      0 \<le> as_required res \<and> as_required res \<le> DesignResult.as_max res)"
proof (intro conjI impI)
  assume "0 \<le> as_upper_bound \<and> find_as_for_mu s target_mu pu as_upper_bound = Inr v"
  then show "0 \<le> v" and "v \<le> as_upper_bound"
    using find_as_for_mu_bounds [of as_upper_bound s target_mu pu v] by simp_all
next
  assume h: "0 \<le> target_mu' \<and> 0 \<le> as_upper_bound' \<and>
    (\<forall>A. 0 < A \<and> A \<le> as_upper_bound' \<longrightarrow> (\<exists>r. analyze_section s'' A pu'' 0 = Inr r))"
  then show "\<exists>w. find_as_for_mu s'' target_mu' pu'' as_upper_bound' = Inr w"
    by (intro find_as_for_mu_returns) simp_all
next
  assume ok: "design_flexural_reinforcement s' mu pu' = Inr res"
  from design_result_fields [OF ok] obtain cap as_strength where
    cap: "get_maximum_capacity s' pu' = Inr cap"
    and mx: "DesignResult.as_max res = CapacityResult.as_max cap"
    and st: "find_as_for_mu s' mu pu' (DesignResult.as_max res) = Inr as_strength"
    and rq: "as_required res = max as_strength (as_min res)"
    and mn: "as_min res = 0 \<or>
            (\<exists>t. find_as_for_mu s' t pu' (DesignResult.as_max res) = Inr (as_min res))"
    by blast
  from get_maximum_capacity_as_max_nonneg [OF cap] mx
  have nn: "0 \<le> DesignResult.as_max res" by simp
  from find_as_for_mu_bounds [OF nn st]
  have s_b: "0 \<le> as_strength" "as_strength \<le> DesignResult.as_max res" by simp_all
  from mn nn have m_b: "0 \<le> as_min res \<and> as_min res \<le> DesignResult.as_max res"
    using find_as_for_mu_bounds [OF nn] by auto
  show "\<exists>as_strength.
          find_as_for_mu s' mu pu' (DesignResult.as_max res) = Inr as_strength \<and>
          as_required res = max as_strength (as_min res)"
    using st rq by blast
  show "0 \<le> as_required res" using rq s_b by simp
  show "as_required res \<le> DesignResult.as_max res" using rq s_b m_b by simp
qed

theorem design_area_within_bounds_witness:
  "(0::real) \<le> 588489 / 146 \<and> (0::real) \<le> 200000000 \<and>
   find_as_for_mu example_beam 200000000 0 (588489 / 146) =
     Inr (380277249573299133 / 321057395310592) \<and>
   design_flexural_reinforcement example_beam 200000000 0 =
     Inr (DesignResult (380277249573299133 / 321057395310592)
            (167236148388524523 / 321057395310592) (588489 / 146) False
            (AnalysisResult (22369249974899949 / 321057395310592)
               (27840868229839 / 1292385242794000) (17 / 20)
               (2576946277092092385158039147095639671 / 12884731385452717744018423808))) \<and>
   (0::real) \<le> 380277249573299133 / 321057395310592 \<and>
   (380277249573299133 / 321057395310592 :: real) \<le> 588489 / 146"
  using design_area_within_bounds [of "588489 / 146" example_beam 200000000 0
      "380277249573299133 / 321057395310592" 200000000 "588489 / 146" example_beam 0
      example_beam 200000000 0
      "DesignResult (380277249573299133 / 321057395310592)
            (167236148388524523 / 321057395310592) (588489 / 146) False
            (AnalysisResult (22369249974899949 / 321057395310592)
               (27840868229839 / 1292385242794000) (17 / 20)
               (2576946277092092385158039147095639671 / 12884731385452717744018423808))"]
    find_as_strength_example_beam design_example_beam analyze_example_beam_succeeds
  by simp

subsection \<open>Range of the factor in every result\<close>


lemma capacity_analysis_origin:
  "get_maximum_capacity s pu = Inr cap \<Longrightarrow>
   analyze_section s (CapacityResult.as_max cap) pu 0 =
     Inr (CapacityResult.analysis_result cap)"
  by (auto simp: get_maximum_capacity_def Let_def split: sum.splits if_splits)






subsection \<open>Capacity ceiling of the design\<close>

lemma cracking_moment_defined:
  assumes v: "valid_section s" and g: "gross_area s \<noteq> 0"
  shows "\<exists>m. cracking_moment s = Inr m"
proof (cases "is_RectangularSection s")
  case True
  with v have "0 < height s"
    by (auto simp: valid_section_def effective_depth_def)
  with True show ?thesis
    by (simp add: cracking_moment_def Ig_def Let_def)
next
  case False
  let ?Af = "flange_width s * flange_depth s"
  let ?Aw = "web_width s * (height s - flange_depth s)"
  from False v have geo: "0 \<le> web_width s" "0 \<le> flange_width s" "0 \<le> flange_depth s"
    "flange_depth s < height s"
    by (auto simp: valid_section_def)
  have Af: "0 \<le> ?Af" and Aw: "0 \<le> ?Aw" using geo by simp_all
  have A: "gross_area s = ?Af + ?Aw" using False by (simp add: gross_area_def Let_def)
  with g Af Aw have Apos: "0 < ?Af + ?Aw" by linarith
  obtain yc where yc: "centroid_y s = Inr yc"
    and ycv: "yc = (?Af * (flange_depth s / 2) +
                    ?Aw * (flange_depth s + (height s - flange_depth s) / 2)) / gross_area s"
    using g by (simp add: centroid_y_def Let_def)
  have top: "flange_depth s / 2 < height s" using geo by linarith
  have mid: "flange_depth s + (height s - flange_depth s) / 2 < height s"
    using geo by (simp add: field_simps)
  have "yc * (?Af + ?Aw) = ?Af * (flange_depth s / 2) +
                    ?Aw * (flange_depth s + (height s - flange_depth s) / 2)"
    using Apos by (simp add: ycv A)
  moreover have "?Af * (flange_depth s / 2) \<le> ?Af * height s"
    using top Af by (intro mult_left_mono) simp_all
  moreover have "?Aw * (flange_depth s + (height s - flange_depth s) / 2) \<le> ?Aw * height s"
    using mid Aw by (intro mult_left_mono) simp_all
  moreover have "?Af * (flange_depth s / 2) < ?Af * height s \<or>
     ?Aw * (flange_depth s + (height s - flange_depth s) / 2) < ?Aw * height s"
  proof (cases "0 < ?Af")
    case True
    then have "?Af * (flange_depth s / 2) < ?Af * height s"
      using top by (intro mult_strict_left_mono) simp_all
    then show ?thesis ..
  next
    case False
    with Af Apos have "0 < ?Aw" by linarith
    then have "?Aw * (flange_depth s + (height s - flange_depth s) / 2) < ?Aw * height s"
      using mid by (intro mult_strict_left_mono) simp_all
    then show ?thesis ..
  qed
  ultimately have "yc * (?Af + ?Aw) < height s * (?Af + ?Aw)"
    by (simp add: algebra_simps) linarith
  with Apos have "yc < height s" by simp
  with yc False show ?thesis
    by (simp add: cracking_moment_def Ig_def Let_def)
qed

lemma get_maximum_capacity_passed_precheck:
  "get_maximum_capacity s pu = Inr cap \<Longrightarrow> check_axial_load_limit s pu = Inr ()"
  by (auto simp: get_maximum_capacity_def split: sum.splits)

lemma design_capacity_ceiling:
  assumes mu: "0 \<le> mu"
    and cap: "get_maximum_capacity s pu = Inr cap"
    and over: "\<not> is_less_or_equal mu (max_phi_mn cap)"
    and mcr: "cracking_moment s = Inr m"
  shows "design_flexural_reinforcement s mu pu = Inl SectionCapacityError"
proof -
  note pre = get_maximum_capacity_passed_precheck [OF cap]
  show ?thesis
  proof (cases "MIN_FLEXURAL_STRENGTH_FACTOR * m > 0")
    case True
    show ?thesis
    proof (cases "find_as_for_mu s (MIN_FLEXURAL_STRENGTH_FACTOR * m) pu
                    (CapacityResult.as_max cap)")
      case (Inl e)
      with True have "e = SectionCapacityError"
        using find_as_for_mu_errors [of "MIN_FLEXURAL_STRENGTH_FACTOR * m" s pu
            "CapacityResult.as_max cap" e] by simp
      with Inl True mu pre cap mcr show ?thesis
        by (simp add: design_flexural_reinforcement_def Let_def)
    next
      case (Inr a)
      with True mu pre cap mcr over show ?thesis
        by (simp add: design_flexural_reinforcement_def Let_def)
    qed
  next
    case False
    with mu pre cap mcr over show ?thesis
      by (simp add: design_flexural_reinforcement_def Let_def)
  qed
qed

lemma valid_zero_area_tee: "valid_section zero_area_tee"
  by (simp add: zero_area_tee_def valid_section_def valid_concrete_def effective_depth_def)

lemma get_maximum_capacity_zero_area_tee:
  "get_maximum_capacity zero_area_tee 0 =
     Inr (CapacityResult (561 / 29200000000000) (2627911 / 532900000000000000000000)
            (AnalysisResult (33 / 73000000000) (1 / 250) (47 / 60)
               (2627911 / 532900000000000000000000)))"
  by (simp add: get_maximum_capacity_def check_axial_load_limit_def Let_def
      zero_area_tee_def analyze_section_def analyze_tsection_def tsection_flange_case_def
      effective_depth_def concrete_defs calculate_phi_def helper_defs phi_defs steel_defs)

lemma cracking_moment_zero_area_tee:
  "cracking_moment zero_area_tee = Inl ZeroDivisionError"
  by (simp add: cracking_moment_def Ig_def centroid_y_def gross_area_def Let_def
      zero_area_tee_def)

lemma valid_rectangular_gross_area:
  assumes v: "valid_section s" and rect: "is_RectangularSection s"
    and cap: "get_maximum_capacity s pu = Inr cap"
  shows "gross_area s \<noteq> 0"
proof -
  from v rect have h: "0 < height s"
    by (auto simp: valid_section_def effective_depth_def)
  have "\<exists>r. analyze_rectangular s (CapacityResult.as_max cap) pu = Inr r"
    using capacity_analysis_origin [OF cap] rect by (simp add: analyze_section_def)
  then have "width s \<noteq> 0"
    by (auto simp: analyze_rectangular_def Let_def split: if_splits)
  with h rect show ?thesis by (simp add: gross_area_def)
qed

lemma design_capacity_ceiling_nonzero_area:
  assumes "valid_section s" and "gross_area s \<noteq> 0"
    and "0 \<le> mu" and "get_maximum_capacity s pu = Inr cap"
    and "\<not> is_less_or_equal mu (max_phi_mn cap)"
  shows "design_flexural_reinforcement s mu pu = Inl SectionCapacityError"
proof -
  from cracking_moment_defined [OF assms(1,2)] obtain m where "cracking_moment s = Inr m" ..
  from design_capacity_ceiling [OF assms(3,4,5) this] show ?thesis .
qed

lemma design_capacity_ceiling_rectangular:
  assumes "valid_section s" and "is_RectangularSection s"
    and "0 \<le> mu" and "get_maximum_capacity s pu = Inr cap"
    and "\<not> is_less_or_equal mu (max_phi_mn cap)"
  shows "design_flexural_reinforcement s mu pu = Inl SectionCapacityError"
  using design_capacity_ceiling_nonzero_area
    [OF assms(1) valid_rectangular_gross_area [OF assms(1,2,4)] assms(3,4,5)] .

text \<open>
  C3: a design whose demand \<open>mu\<close> exceeds the maximum design strength (beyond the
  tolerance) is to fail with \<open>SectionCapacityError\<close>.  The lemmas above show that it does
  on every valid section of non-zero gross area, hence on every rectangular section.  On
  the constructible T-section of zero gross area the capacity is computed, the demand
  exceeds it, and the design raises \<open>ZeroDivisionError\<close> from the centroid computation
  instead.
\<close>

theorem design_zero_area_tee_division_error:
  "valid_section zero_area_tee \<and>
   check_axial_load_limit zero_area_tee 0 = Inr () \<and>
   get_maximum_capacity zero_area_tee 0 =
     Inr (CapacityResult (561 / 29200000000000) (2627911 / 532900000000000000000000)
            (AnalysisResult (33 / 73000000000) (1 / 250) (47 / 60)
               (2627911 / 532900000000000000000000))) \<and>
   \<not> is_less_or_equal 1000000 (2627911 / 532900000000000000000000) \<and>
   design_flexural_reinforcement zero_area_tee 1000000 0 = Inl ZeroDivisionError"
  by (simp add: valid_zero_area_tee get_maximum_capacity_zero_area_tee
      cracking_moment_zero_area_tee design_flexural_reinforcement_def
      check_axial_load_limit_def helper_defs)


section \<open>Equilibrium at the ductility limit and at the flange boundary\<close>

subsection \<open>Ranges of the material constants and of the geometry\<close>

lemma concrete_ranges:
  assumes "valid_concrete conc"
  shows "0 < fck conc" and "84 / 100 \<le> eta conc" and "eta conc \<le> 1"
    and "64 / 100 \<le> beta1 conc" and "beta1 conc \<le> 8 / 10"
    and "28 / 10000 \<le> ultimate_strain conc" and "ultimate_strain conc \<le> 33 / 10000"
  using assms by (auto simp: valid_concrete_def concrete_defs max_def)

lemma block_stress_pos: "valid_concrete conc \<Longrightarrow> 0 < block_stress conc"
  using concrete_ranges(1,2) [of conc] by (simp add: block_stress_def)

lemma beta1_pos: "valid_concrete conc \<Longrightarrow> 0 < beta1 conc"
  using concrete_ranges(4) [of conc] by simp

lemma ultimate_strain_pos: "valid_concrete conc \<Longrightarrow> 0 < ultimate_strain conc"
  using concrete_ranges(6) [of conc] by simp

lemma fy_pos: "0 < fy st"
  using fy_cases [of st] by auto

lemma min_allowable_tensile_strain_pos: "0 < min_allowable_tensile_strain st"
  using fy_cases [of st] by (auto simp: steel_defs)

lemma valid_section_concrete: "valid_section s \<Longrightarrow> valid_concrete (concrete s)"
  by (simp add: valid_section_def)

lemma valid_section_depth: "valid_section s \<Longrightarrow> 0 < effective_depth s"
  by (auto simp: valid_section_def split: if_splits)

lemma valid_rectangular_width: "valid_section s \<Longrightarrow> is_RectangularSection s \<Longrightarrow> 0 \<le> width s"
  by (simp add: valid_section_def)

lemma valid_tsection_geometry:
  assumes "valid_section s" and "is_TSection s"
  shows "0 \<le> web_width s" and "web_width s \<le> flange_width s"
    and "0 \<le> flange_depth s" and "flange_depth s < height s"
  using assms by (auto simp: valid_section_def BaseSection.disc_eq_case split: BaseSection.splits)

subsection \<open>The analysis results, case by case\<close>

lemma analysis_result_shape:
  assumes "analyze_section s As Pu 0 = Inr r"
  shows "0 < c r"
    and "net_tensile_strain r =
           ultimate_strain (concrete s) * (effective_depth s - c r) / c r"
    and "phi r = calculate_phi (tension_steel s) (net_tensile_strain r)"
  using assms
  by (auto simp: analyze_section_def analyze_rectangular_def analyze_tsection_def Let_def
      split: if_splits sum.splits prod.splits)

lemma analyze_section_rectangular:
  "is_RectangularSection s \<Longrightarrow> analyze_section s As Pu 0 = analyze_rectangular s As Pu"
  by (simp add: analyze_section_def)

lemma analyze_section_tsection:
  "is_TSection s \<Longrightarrow> analyze_section s As Pu 0 = analyze_tsection s As Pu"
  by (cases s) (simp_all add: analyze_section_def)

lemma analyze_rectangular_result:
  assumes ok: "analyze_rectangular s As Pu = Inr r"
  shows "r = AnalysisResult (((As * fy (tension_steel s) - Pu) / (eta (concrete s) * 0.85 * fck (concrete s) * beta1 (concrete s) * width s)))
           (ultimate_strain (concrete s) * (effective_depth s - ((As * fy (tension_steel s) - Pu) / (eta (concrete s) * 0.85 * fck (concrete s) * beta1 (concrete s) * width s))) / ((As * fy (tension_steel s) - Pu) / (eta (concrete s) * 0.85 * fck (concrete s) * beta1 (concrete s) * width s)))
           (calculate_phi (tension_steel s) (ultimate_strain (concrete s) * (effective_depth s - ((As * fy (tension_steel s) - Pu) / (eta (concrete s) * 0.85 * fck (concrete s) * beta1 (concrete s) * width s))) / ((As * fy (tension_steel s) - Pu) / (eta (concrete s) * 0.85 * fck (concrete s) * beta1 (concrete s) * width s))))
           (calculate_phi (tension_steel s) (ultimate_strain (concrete s) * (effective_depth s - ((As * fy (tension_steel s) - Pu) / (eta (concrete s) * 0.85 * fck (concrete s) * beta1 (concrete s) * width s))) / ((As * fy (tension_steel s) - Pu) / (eta (concrete s) * 0.85 * fck (concrete s) * beta1 (concrete s) * width s))) *
            (eta (concrete s) * 0.85 * fck (concrete s) * (beta1 (concrete s) * ((As * fy (tension_steel s) - Pu) / (eta (concrete s) * 0.85 * fck (concrete s) * beta1 (concrete s) * width s))) * width s *
               (effective_depth s - beta1 (concrete s) * ((As * fy (tension_steel s) - Pu) / (eta (concrete s) * 0.85 * fck (concrete s) * beta1 (concrete s) * width s)) / 2) +
             Pu * (effective_depth s - height s / 2)))"
    and "\<not> \<bar>eta (concrete s) * 0.85 * fck (concrete s) * beta1 (concrete s) * width s\<bar> < 1 / 1000000000"
  using ok unfolding analyze_rectangular_def Let_def
  by (simp_all only: if_True if_False sum.case prod.case sum.inject sum.distinct simp_thms
      split: if_splits)

lemma analyze_tsection_flange_result:
  assumes ok: "analyze_tsection s As Pu = Inr r"
    and fl: "is_less_or_equal (a_rect_assumption s As Pu) (flange_depth s)"
  shows "r = AnalysisResult ((c_rect_assumption s As Pu))
           (ultimate_strain (concrete s) * (effective_depth s - (c_rect_assumption s As Pu)) / (c_rect_assumption s As Pu))
           (calculate_phi (tension_steel s) (ultimate_strain (concrete s) * (effective_depth s - (c_rect_assumption s As Pu)) / (c_rect_assumption s As Pu)))
           (calculate_phi (tension_steel s) (ultimate_strain (concrete s) * (effective_depth s - (c_rect_assumption s As Pu)) / (c_rect_assumption s As Pu)) *
            (eta (concrete s) * 0.85 * fck (concrete s) * (beta1 (concrete s) * (c_rect_assumption s As Pu)) * flange_width s *
               (effective_depth s - beta1 (concrete s) * (c_rect_assumption s As Pu) / 2) +
             Pu * (effective_depth s - height s / 2)))"
    and "\<not> \<bar>eta (concrete s) * 0.85 * fck (concrete s) * beta1 (concrete s) * flange_width s\<bar> < 1 / 1000000000"
  using ok fl
  unfolding analyze_tsection_def tsection_flange_case_def Let_def a_rect_assumption_def
    c_rect_assumption_def
  by (simp_all only: if_True if_False sum.case prod.case sum.inject sum.distinct simp_thms
      split: if_splits)

lemma analyze_tsection_web_result:
  assumes ok: "analyze_tsection s As Pu = Inr r"
    and web: "\<not> is_less_or_equal (a_rect_assumption s As Pu) (flange_depth s)"
  shows "r = AnalysisResult (((As * fy (tension_steel s) - Pu - eta (concrete s) * 0.85 * fck (concrete s) * (flange_width s - web_width s) * flange_depth s) / (eta (concrete s) * 0.85 * fck (concrete s) * beta1 (concrete s) * web_width s)))
           (ultimate_strain (concrete s) * (effective_depth s - ((As * fy (tension_steel s) - Pu - eta (concrete s) * 0.85 * fck (concrete s) * (flange_width s - web_width s) * flange_depth s) / (eta (concrete s) * 0.85 * fck (concrete s) * beta1 (concrete s) * web_width s))) / ((As * fy (tension_steel s) - Pu - eta (concrete s) * 0.85 * fck (concrete s) * (flange_width s - web_width s) * flange_depth s) / (eta (concrete s) * 0.85 * fck (concrete s) * beta1 (concrete s) * web_width s)))
           (calculate_phi (tension_steel s) (ultimate_strain (concrete s) * (effective_depth s - ((As * fy (tension_steel s) - Pu - eta (concrete s) * 0.85 * fck (concrete s) * (flange_width s - web_width s) * flange_depth s) / (eta (concrete s) * 0.85 * fck (concrete s) * beta1 (concrete s) * web_width s))) / ((As * fy (tension_steel s) - Pu - eta (concrete s) * 0.85 * fck (concrete s) * (flange_width s - web_width s) * flange_depth s) / (eta (concrete s) * 0.85 * fck (concrete s) * beta1 (concrete s) * web_width s))))
           (calculate_phi (tension_steel s) (ultimate_strain (concrete s) * (effective_depth s - ((As * fy (tension_steel s) - Pu - eta (concrete s) * 0.85 * fck (concrete s) * (flange_width s - web_width s) * flange_depth s) / (eta (concrete s) * 0.85 * fck (concrete s) * beta1 (concrete s) * web_width s))) / ((As * fy (tension_steel s) - Pu - eta (concrete s) * 0.85 * fck (concrete s) * (flange_width s - web_width s) * flange_depth s) / (eta (concrete s) * 0.85 * fck (concrete s) * beta1 (concrete s) * web_width s))) *
            (eta (concrete s) * 0.85 * fck (concrete s) * (flange_width s - web_width s) * flange_depth s *
               (effective_depth s - flange_depth s / 2) +
             eta (concrete s) * 0.85 * fck (concrete s) * (beta1 (concrete s) * ((As * fy (tension_steel s) - Pu - eta (concrete s) * 0.85 * fck (concrete s) * (flange_width s - web_width s) * flange_depth s) / (eta (concrete s) * 0.85 * fck (concrete s) * beta1 (concrete s) * web_width s))) * web_width s *
               (effective_depth s - beta1 (concrete s) * ((As * fy (tension_steel s) - Pu - eta (concrete s) * 0.85 * fck (concrete s) * (flange_width s - web_width s) * flange_depth s) / (eta (concrete s) * 0.85 * fck (concrete s) * beta1 (concrete s) * web_width s)) / 2) +
             Pu * (effective_depth s - height s / 2)))"
    and "\<not> \<bar>eta (concrete s) * 0.85 * fck (concrete s) * beta1 (concrete s) * web_width s\<bar> < 1 / 1000000000"
    and "\<not> \<bar>eta (concrete s) * 0.85 * fck (concrete s) * beta1 (concrete s) * flange_width s\<bar> < 1 / 1000000000"
  using ok web
  unfolding analyze_tsection_def tsection_web_case_def Let_def a_rect_assumption_def
    c_rect_assumption_def
  by (simp_all only: if_True if_False sum.case prod.case sum.inject sum.distinct simp_thms
      split: if_splits)

lemma nondegenerate_width:
  assumes K: "0 < K" and b: "0 \<le> (b::real)" and nd: "\<not> \<bar>K * b\<bar> < 1 / 1000000000"
  shows "0 < b"
proof (rule ccontr)
  assume "\<not> 0 < b"
  with b have "b = 0" by simp
  with nd show False by simp
qed

lemma block_stress_beta1_pos:
  "valid_section s \<Longrightarrow> 0 < block_stress (concrete s) * beta1 (concrete s)"
  using block_stress_pos beta1_pos valid_section_concrete by simp

lemma analyze_rectangular_view:
  assumes v: "valid_section s" and rect: "is_RectangularSection s"
    and ok: "analyze_section s As Pu 0 = Inr r"
  shows "0 < width s"
    and "c r = (As * fy (tension_steel s) - Pu) / (block_stress (concrete s) * beta1 (concrete s) * width s)"
    and "phi_mn r = phi r *
           (block_stress (concrete s) * (beta1 (concrete s) * c r) * width s *
               (effective_depth s - beta1 (concrete s) * c r / 2) +
             Pu * (effective_depth s - height s / 2))"
proof -
  from ok rect have ok': "analyze_rectangular s As Pu = Inr r"
    by (simp add: analyze_section_rectangular)
  note res = analyze_rectangular_result [OF ok', folded block_stress_def]
  from nondegenerate_width [OF block_stress_beta1_pos [OF v]
      valid_rectangular_width [OF v rect] res(2)]
  show "0 < width s" .
  show "c r = (As * fy (tension_steel s) - Pu) / (block_stress (concrete s) * beta1 (concrete s) * width s)"
    by (subst res(1)) (simp only: AnalysisResult.sel)
  show "phi_mn r = phi r *
           (block_stress (concrete s) * (beta1 (concrete s) * c r) * width s *
               (effective_depth s - beta1 (concrete s) * c r / 2) +
             Pu * (effective_depth s - height s / 2))"
    by (subst (1 2 3 4) res(1)) (simp only: AnalysisResult.sel)
qed

lemma analyze_tsection_flange_view:
  assumes v: "valid_section s" and tee: "is_TSection s"
    and ok: "analyze_section s As Pu 0 = Inr r"
    and fl: "is_less_or_equal (a_rect_assumption s As Pu) (flange_depth s)"
  shows "0 < flange_width s"
    and "c r = (As * fy (tension_steel s) - Pu) / (block_stress (concrete s) * beta1 (concrete s) * flange_width s)"
    and "phi_mn r = phi r *
           (block_stress (concrete s) * (beta1 (concrete s) * c r) * flange_width s *
               (effective_depth s - beta1 (concrete s) * c r / 2) +
             Pu * (effective_depth s - height s / 2))"
proof -
  from ok tee have ok': "analyze_tsection s As Pu = Inr r"
    by (simp add: analyze_section_tsection)
  note res = analyze_tsection_flange_result [OF ok' fl, unfolded c_rect_assumption_def,
      folded block_stress_def]
  from valid_tsection_geometry [OF v tee] have "0 \<le> flange_width s" by simp
  from nondegenerate_width [OF block_stress_beta1_pos [OF v] this res(2)]
  show "0 < flange_width s" .
  show "c r = (As * fy (tension_steel s) - Pu) / (block_stress (concrete s) * beta1 (concrete s) * flange_width s)"
    by (subst res(1)) (simp only: AnalysisResult.sel)
  show "phi_mn r = phi r *
           (block_stress (concrete s) * (beta1 (concrete s) * c r) * flange_width s *
               (effective_depth s - beta1 (concrete s) * c r / 2) +
             Pu * (effective_depth s - height s / 2))"
    by (subst (1 2 3 4) res(1)) (simp only: AnalysisResult.sel)
qed

lemma analyze_tsection_web_view:
  assumes v: "valid_section s" and tee: "is_TSection s"
    and ok: "analyze_section s As Pu 0 = Inr r"
    and web: "\<not> is_less_or_equal (a_rect_assumption s As Pu) (flange_depth s)"
  shows "0 < web_width s" and "0 < flange_width s"
    and "c r = (As * fy (tension_steel s) - Pu - block_stress (concrete s) * (flange_width s - web_width s) * flange_depth s) / (block_stress (concrete s) * beta1 (concrete s) * web_width s)"
    and "phi_mn r = phi r *
           (block_stress (concrete s) * (flange_width s - web_width s) * flange_depth s *
               (effective_depth s - flange_depth s / 2) +
             block_stress (concrete s) * (beta1 (concrete s) * c r) * web_width s *
               (effective_depth s - beta1 (concrete s) * c r / 2) +
             Pu * (effective_depth s - height s / 2))"
proof -
  from ok tee have ok': "analyze_tsection s As Pu = Inr r"
    by (simp add: analyze_section_tsection)
  note res = analyze_tsection_web_result [OF ok' web, folded block_stress_def]
  from valid_tsection_geometry [OF v tee]
  have nn: "0 \<le> web_width s" "0 \<le> flange_width s" by simp_all
  from nondegenerate_width [OF block_stress_beta1_pos [OF v] nn(1) res(2)]
  show "0 < web_width s" .
  from nondegenerate_width [OF block_stress_beta1_pos [OF v] nn(2) res(3)]
  show "0 < flange_width s" .
  show "c r = (As * fy (tension_steel s) - Pu - block_stress (concrete s) * (flange_width s - web_width s) * flange_depth s) / (block_stress (concrete s) * beta1 (concrete s) * web_width s)"
    by (subst res(1)) (simp only: AnalysisResult.sel)
  show "phi_mn r = phi r *
           (block_stress (concrete s) * (flange_width s - web_width s) * flange_depth s *
               (effective_depth s - flange_depth s / 2) +
             block_stress (concrete s) * (beta1 (concrete s) * c r) * web_width s *
               (effective_depth s - beta1 (concrete s) * c r / 2) +
             Pu * (effective_depth s - height s / 2))"
    by (subst (1 2 3 4) res(1)) (simp only: AnalysisResult.sel)
qed

lemma a_rect_assumption_eq:
  assumes v: "valid_section s"
  shows "a_rect_assumption s As Pu =
           (As * fy (tension_steel s) - Pu) / (block_stress (concrete s) * flange_width s)"
  using beta1_pos [OF valid_section_concrete [OF v]]
  by (simp add: a_rect_assumption_def c_rect_assumption_def block_stress_def)

lemma get_maximum_capacity_view:
  assumes ok: "get_maximum_capacity s pu = Inr cap"
  shows "analyze_section s (CapacityResult.as_max cap) pu 0 =
           Inr (CapacityResult.analysis_result cap)"
    and "max_phi_mn cap = phi_mn (CapacityResult.analysis_result cap)"
    and "CapacityResult.as_max cap * fy (tension_steel s) - pu =
           (if is_TSection s then
              (if is_less_or_equal (a_max s) (flange_depth s)
               then block_stress (concrete s) * a_max s * flange_width s
               else block_stress (concrete s) * (flange_width s - web_width s)
                      * flange_depth s +
                    block_stress (concrete s) * web_width s * a_max s)
            else block_stress (concrete s) * a_max s * width s)"
proof -
  from ok show "analyze_section s (CapacityResult.as_max cap) pu 0 =
           Inr (CapacityResult.analysis_result cap)"
    by (auto simp: get_maximum_capacity_def Let_def split: sum.splits if_splits)
  from ok show "max_phi_mn cap = phi_mn (CapacityResult.analysis_result cap)"
    by (auto simp: get_maximum_capacity_def Let_def split: sum.splits if_splits)
  have fy: "fy (tension_steel s) \<noteq> 0" using fy_pos [of "tension_steel s"] by simp
  from ok fy show "CapacityResult.as_max cap * fy (tension_steel s) - pu =
           (if is_TSection s then
              (if is_less_or_equal (a_max s) (flange_depth s)
               then block_stress (concrete s) * a_max s * flange_width s
               else block_stress (concrete s) * (flange_width s - web_width s)
                      * flange_depth s +
                    block_stress (concrete s) * web_width s * a_max s)
            else block_stress (concrete s) * a_max s * width s)"
    by (auto simp: get_maximum_capacity_def Let_def a_max_def c_max_def block_stress_def
        split: sum.splits if_splits)
qed

subsection \<open>Strain as a function of the neutral-axis depth\<close>

lemma strain_at_limit_depth:
  fixes ecu em d :: real
  assumes "0 < ecu" and "0 < em" and "0 < d"
  shows "ecu * (d - ecu / (ecu + em) * d) / (ecu / (ecu + em) * d) = em"
proof -
  define cm where "cm = ecu / (ecu + em) * d"
  from assms have pos: "0 < cm" by (simp add: cm_def)
  from assms have bal: "cm * (ecu + em) = ecu * d" by (simp add: cm_def)
  have "ecu * (d - cm) = em * cm" using bal by (simp add: algebra_simps)
  with pos have "ecu * (d - cm) / cm = em" by (simp add: divide_eq_eq)
  then show ?thesis by (simp add: cm_def)
qed

lemma strain_strictly_antitone:
  fixes ecu d c1 c2 :: real
  assumes ecu: "0 < ecu" and d: "0 < d" and c1: "0 < c1" and lt: "c1 < c2"
  shows "ecu * (d - c2) / c2 < ecu * (d - c1) / c1"
proof -
  from c1 lt have c2: "0 < c2" by simp
  have "d / c2 < d / c1" using d c1 lt by (simp add: divide_strict_left_mono)
  then have "d / c2 - 1 < d / c1 - 1" by simp
  moreover have "(d - c2) / c2 = d / c2 - 1" using c2 by (simp add: field_simps)
  moreover have "(d - c1) / c1 = d / c1 - 1" using c1 by (simp add: field_simps)
  ultimately have "(d - c2) / c2 < (d - c1) / c1" by simp
  then have "ecu * ((d - c2) / c2) < ecu * ((d - c1) / c1)"
    using ecu by (rule mult_strict_left_mono)
  then show ?thesis by simp
qed

lemma strain_antitone:
  fixes ecu d c1 c2 :: real
  assumes ecu: "0 < ecu" and d: "0 < d" and c1: "0 < c1" and le: "c1 \<le> c2"
  shows "ecu * (d - c2) / c2 \<le> ecu * (d - c1) / c1"
proof (cases "c1 = c2")
  case True
  then show ?thesis by simp
next
  case False
  with le have "c1 < c2" by simp
  from strain_strictly_antitone [OF ecu d c1 this] show ?thesis by simp
qed

subsection \<open>The limiting depths of the capacity computation\<close>

lemma c_max_pos: "valid_section s \<Longrightarrow> 0 < c_max s"
  using ultimate_strain_pos [OF valid_section_concrete, of s]
    min_allowable_tensile_strain_pos [of "tension_steel s"] valid_section_depth [of s]
  by (simp add: c_max_def)

lemma strain_at_c_max:
  assumes v: "valid_section s"
  shows "ultimate_strain (concrete s) * (effective_depth s - c_max s) / c_max s =
         min_allowable_tensile_strain (tension_steel s)"
  unfolding c_max_def
  by (rule strain_at_limit_depth
      [OF ultimate_strain_pos [OF valid_section_concrete [OF v]]
          min_allowable_tensile_strain_pos valid_section_depth [OF v]])

lemma a_max_pos: "valid_section s \<Longrightarrow> 0 < a_max s"
  using c_max_pos [of s] beta1_pos [OF valid_section_concrete, of s]
  by (simp add: a_max_def)

lemma c_max_less_depth:
  assumes v: "valid_section s"
  shows "c_max s < effective_depth s"
proof -
  let ?e = "ultimate_strain (concrete s)"
  let ?m = "min_allowable_tensile_strain (tension_steel s)"
  have e: "0 < ?e" by (rule ultimate_strain_pos [OF valid_section_concrete [OF v]])
  have m: "0 < ?m" by (rule min_allowable_tensile_strain_pos)
  from e m have "?e / (?e + ?m) < 1" by simp
  with valid_section_depth [OF v]
  have "?e / (?e + ?m) * effective_depth s < 1 * effective_depth s"
    by (intro mult_strict_right_mono) simp_all
  then show ?thesis by (simp add: c_max_def)
qed

lemma a_max_less_depth:
  assumes v: "valid_section s"
  shows "a_max s < effective_depth s"
proof -
  have "beta1 (concrete s) * c_max s \<le> 1 * c_max s"
    using concrete_ranges(5) [OF valid_section_concrete [OF v]] c_max_pos [OF v]
    by (intro mult_right_mono) simp_all
  with c_max_less_depth [OF v] show ?thesis by (simp add: a_max_def)
qed

subsection \<open>Neutral-axis depth at and beyond the maximum area\<close>

lemma not_is_less_or_equal_gap:
  "\<not> is_less_or_equal a b \<Longrightarrow> b < a"
  by (simp add: helper_defs)

lemma is_less_or_equal_mono:
  "is_less_or_equal a b \<Longrightarrow> a' \<le> a \<Longrightarrow> is_less_or_equal a' b"
  by (simp add: helper_defs)

lemma depth_at_as_max:
  assumes v: "valid_section s"
    and cap: "get_maximum_capacity s pu = Inr cap"
    and same: "is_RectangularSection s \<or> is_less_or_equal (a_max s) (flange_depth s) \<or>
               \<not> is_less_or_equal (a_rect_assumption s (CapacityResult.as_max cap) pu)
                    (flange_depth s)"
  shows "c (CapacityResult.analysis_result cap) = c_max s"
proof -
  let ?r = "CapacityResult.analysis_result cap"
  let ?A = "CapacityResult.as_max cap"
  define K where "K = block_stress (concrete s)"
  define b1 where "b1 = beta1 (concrete s)"
  define T0 where "T0 = ?A * fy (tension_steel s) - pu"
  have K: "0 < K" unfolding K_def by (rule block_stress_pos [OF valid_section_concrete [OF v]])
  have b1: "0 < b1" unfolding b1_def by (rule beta1_pos [OF valid_section_concrete [OF v]])
  have am: "a_max s = b1 * c_max s" by (simp add: a_max_def b1_def)
  note gv = get_maximum_capacity_view [OF cap, folded K_def T0_def]
  show ?thesis
  proof (cases "is_RectangularSection s")
    case True
    then have nt: "\<not> is_TSection s" by (cases s) simp_all
    note rv = analyze_rectangular_view [OF v True gv(1), folded K_def b1_def T0_def]
    from gv(3) nt have T0: "T0 = K * a_max s * width s" by simp
    show ?thesis unfolding rv(2) T0 am using K b1 rv(1) by simp
  next
    case False
    then have tee: "is_TSection s" by (cases s) simp_all
    show ?thesis
    proof (cases "is_less_or_equal (a_max s) (flange_depth s)")
      case gfl: True
      with gv(3) tee have T0: "T0 = K * a_max s * flange_width s" by simp
      have bf: "0 < flange_width s"
      proof (cases "is_less_or_equal (a_rect_assumption s ?A pu) (flange_depth s)")
        case True
        from analyze_tsection_flange_view(1) [OF v tee gv(1) True] show ?thesis .
      next
        case False
        from analyze_tsection_web_view(2) [OF v tee gv(1) False] show ?thesis .
      qed
      have "a_rect_assumption s ?A pu = a_max s"
        unfolding a_rect_assumption_eq [OF v] using K bf T0
        by (simp add: K_def T0_def)
      with gfl have afl: "is_less_or_equal (a_rect_assumption s ?A pu) (flange_depth s)"
        by simp
      note fv = analyze_tsection_flange_view [OF v tee gv(1) afl, folded K_def b1_def T0_def]
      show ?thesis unfolding fv(2) T0 am using K b1 bf by simp
    next
      case gweb: False
      with same False
      have aweb: "\<not> is_less_or_equal (a_rect_assumption s ?A pu) (flange_depth s)"
        by simp
      from gv(3) tee gweb
      have T0: "T0 = K * (flange_width s - web_width s) * flange_depth s +
                     K * web_width s * a_max s" by simp
      note wv = analyze_tsection_web_view [OF v tee gv(1) aweb, folded K_def b1_def T0_def]
      show ?thesis unfolding wv(3) T0 am using K b1 wv(1) by simp
    qed
  qed
qed

lemma capacity_tension_force_nonneg:
  assumes v: "valid_section s"
    and cap: "get_maximum_capacity s pu = Inr cap"
  shows "0 \<le> CapacityResult.as_max cap * fy (tension_steel s) - pu"
proof -
  define K where "K = block_stress (concrete s)"
  have K: "0 < K" unfolding K_def by (rule block_stress_pos [OF valid_section_concrete [OF v]])
  have am: "0 < a_max s" by (rule a_max_pos [OF v])
  note gv = get_maximum_capacity_view [OF cap, folded K_def]
  show ?thesis
  proof (cases "is_TSection s")
    case False
    then have rect: "is_RectangularSection s" by (cases s) simp_all
    from valid_rectangular_width [OF v rect] K am have "0 \<le> K * a_max s * width s" by simp
    with gv(3) False show ?thesis by simp
  next
    case True
    from valid_tsection_geometry [OF v True]
    have geo: "0 \<le> web_width s" "web_width s \<le> flange_width s" "0 \<le> flange_depth s"
      by simp_all
    from geo K am have "0 \<le> K * a_max s * flange_width s" by simp
    moreover from geo K have "0 \<le> K * (flange_width s - web_width s) * flange_depth s"
      by simp
    moreover from geo K am have "0 \<le> K * web_width s * a_max s" by simp
    ultimately show ?thesis using gv(3) True by simp
  qed
qed

lemma web_numerator_beyond_as_max:
  assumes v: "valid_section s" and tee: "is_TSection s"
    and cap: "get_maximum_capacity s pu = Inr cap"
    and more: "CapacityResult.as_max cap < As"
    and aweb: "\<not> is_less_or_equal (a_rect_assumption s As pu) (flange_depth s)"
    and bw: "0 < web_width s"
  shows "block_stress (concrete s) * web_width s * a_max s <
         As * fy (tension_steel s) - pu -
         block_stress (concrete s) * (flange_width s - web_width s) * flange_depth s"
proof -
  let ?A = "CapacityResult.as_max cap"
  define K where "K = block_stress (concrete s)"
  define T0 where "T0 = ?A * fy (tension_steel s) - pu"
  define T where "T = As * fy (tension_steel s) - pu"
  define hf where "hf = flange_depth s"
  define bf where "bf = flange_width s"
  define bw where "bw = web_width s"
  define am where "am = a_max s"
  have K: "0 < K" unfolding K_def by (rule block_stress_pos [OF valid_section_concrete [OF v]])
  have TT: "T0 < T" unfolding T0_def T_def using more fy_pos [of "tension_steel s"] by simp
  note gv = get_maximum_capacity_view [OF cap, folded K_def T0_def am_def hf_def bf_def bw_def]
  from valid_tsection_geometry [OF v tee]
  have geo: "0 \<le> bw" "bw \<le> bf" "0 \<le> hf" by (simp_all add: bw_def bf_def hf_def)
  from bw geo have bw: "0 < bw" and bf: "0 < bf" by (simp_all add: bw_def)
  have ar: "a_rect_assumption s As pu = T / (K * bf)"
    by (simp add: a_rect_assumption_eq [OF v] K_def bf_def T_def)
  have "K * bw * am < T - K * (bf - bw) * hf"
  proof (cases "is_less_or_equal (a_max s) (flange_depth s)")
    case gweb: False
    with gv(3) tee have "T0 = K * (bf - bw) * hf + K * bw * am"
      by (simp add: am_def hf_def)
    with TT show ?thesis by simp
  next
    case gfl: True
    with gv(3) tee have T0: "T0 = K * am * bf" by (simp add: am_def hf_def)
    from not_is_less_or_equal_gap [OF aweb]
    have "hf < T / (K * bf)" by (simp add: ar hf_def)
    then have Thf: "K * bf * hf < T" using K bf by (simp add: field_simps)
    from TT T0 have Tam: "K * bf * am < T" by (simp add: mult.commute mult.left_commute)
    have Kd: "0 \<le> K * (bf - bw)" using K geo by simp
    show ?thesis
    proof (cases "hf \<le> am")
      case True
      then have "K * (bf - bw) * hf \<le> K * (bf - bw) * am"
        using Kd by (rule mult_left_mono)
      then have "T - K * (bf - bw) * am \<le> T - K * (bf - bw) * hf" by simp
      moreover have "K * bw * am < T - K * (bf - bw) * am"
        using Tam by (simp add: algebra_simps)
      ultimately show ?thesis by simp
    next
      case False
      then have "am < hf" by simp
      then have "K * bw * am < K * bw * hf"
        using K bw by simp
      moreover have "K * bw * hf < T - K * (bf - bw) * hf"
        using Thf by (simp add: algebra_simps)
      ultimately show ?thesis by simp
    qed
  qed
  then show ?thesis by (simp add: K_def bw_def am_def T_def bf_def hf_def)
qed

lemma depth_beyond_as_max:
  assumes v: "valid_section s"
    and cap: "get_maximum_capacity s pu = Inr cap"
    and same: "is_RectangularSection s \<or> is_less_or_equal (a_max s) (flange_depth s) \<or>
               \<not> is_less_or_equal (a_rect_assumption s (CapacityResult.as_max cap) pu)
                    (flange_depth s)"
    and more: "CapacityResult.as_max cap < As"
    and ok: "analyze_section s As pu 0 = Inr r"
  shows "c_max s < c r"
proof -
  let ?A = "CapacityResult.as_max cap"
  define K where "K = block_stress (concrete s)"
  define b1 where "b1 = beta1 (concrete s)"
  define T0 where "T0 = ?A * fy (tension_steel s) - pu"
  define T where "T = As * fy (tension_steel s) - pu"
  define hf where "hf = flange_depth s"
  define bf where "bf = flange_width s"
  define bw where "bw = web_width s"
  define am where "am = a_max s"
  have K: "0 < K" unfolding K_def by (rule block_stress_pos [OF valid_section_concrete [OF v]])
  have b1: "0 < b1" unfolding b1_def by (rule beta1_pos [OF valid_section_concrete [OF v]])
  have cm: "c_max s = am / b1" using b1 by (simp add: a_max_def b1_def am_def)
  have TT: "T0 < T" unfolding T0_def T_def using more fy_pos [of "tension_steel s"] by simp
  note gv = get_maximum_capacity_view [OF cap, folded K_def T0_def am_def hf_def bf_def bw_def]
  show ?thesis
  proof (cases "is_RectangularSection s")
    case True
    then have nt: "\<not> is_TSection s" by (cases s) simp_all
    note rv = analyze_rectangular_view [OF v True ok, folded K_def b1_def T_def]
    from gv(3) nt have T0: "T0 = K * am * width s" by simp
    have den: "0 < K * b1 * width s" using K b1 rv(1) by simp
    have "c_max s = T0 / (K * b1 * width s)" unfolding cm T0 using K b1 rv(1) by simp
    also have "\<dots> < T / (K * b1 * width s)"
      using TT den by (rule divide_strict_right_mono)
    finally show ?thesis unfolding rv(2) .
  next
    case False
    then have tee: "is_TSection s" by (cases s) simp_all
    from valid_tsection_geometry [OF v tee]
    have geo: "0 \<le> bw" "bw \<le> bf" "0 \<le> hf" by (simp_all add: bw_def bf_def hf_def)
    have ar: "a_rect_assumption s X pu = (X * fy (tension_steel s) - pu) / (K * bf)" for X
      by (simp add: a_rect_assumption_eq [OF v] K_def bf_def)
    show ?thesis
    proof (cases "is_less_or_equal (a_rect_assumption s As pu) (flange_depth s)")
      case afl: True
      note fv = analyze_tsection_flange_view [OF v tee ok afl,
          folded K_def b1_def T_def bf_def]
      have Kbf: "0 < K * bf" using K fv(1) by simp
      have den: "0 < K * b1 * bf" using K b1 fv(1) by simp
      have lt: "a_rect_assumption s ?A pu < a_rect_assumption s As pu"
        unfolding ar using TT Kbf
        by (simp add: T0_def T_def divide_strict_right_mono)
      with afl have afl0: "is_less_or_equal (a_rect_assumption s ?A pu) (flange_depth s)"
        by (simp add: helper_defs)
      with same False have "is_less_or_equal (a_max s) (flange_depth s)" by auto
      with gv(3) tee have T0: "T0 = K * am * bf" by (simp add: am_def hf_def)
      have "c_max s = T0 / (K * b1 * bf)" unfolding cm T0 using K b1 fv(1) by simp
      also have "\<dots> < T / (K * b1 * bf)"
        using TT den by (rule divide_strict_right_mono)
      finally show ?thesis unfolding fv(2) .
    next
      case aweb: False
      note wv = analyze_tsection_web_view [OF v tee ok aweb,
          folded K_def b1_def T_def bf_def bw_def hf_def]
      have bw: "0 < bw" and bf: "0 < bf" using wv(1,2) by simp_all
      have den: "0 < K * b1 * bw" using K b1 bw by simp
      have cmw: "c_max s = (K * bw * am) / (K * b1 * bw)"
        unfolding cm using K b1 bw by simp
      have "K * bw * am < T - K * (bf - bw) * hf"
        using web_numerator_beyond_as_max [OF v tee cap more aweb]
          bw by (simp add: K_def bw_def am_def T_def bf_def hf_def)
      then have "(K * bw * am) / (K * b1 * bw) < (T - K * (bf - bw) * hf) / (K * b1 * bw)"
        using den by (rule divide_strict_right_mono)
      then show ?thesis unfolding wv(3) cmw .
    qed
  qed
qed

lemma analyze_rectangular_succeeds:
  assumes "\<not> \<bar>block_stress (concrete s) * beta1 (concrete s) * width s\<bar> < 1 / 1000000000"
    and "0 < (As * fy (tension_steel s) - Pu) /
               (block_stress (concrete s) * beta1 (concrete s) * width s)"
  shows "\<exists>r. analyze_rectangular s As Pu = Inr r"
  using assms unfolding analyze_rectangular_def Let_def block_stress_def
  by (simp only: if_False not_le [symmetric] sum.inject simp_thms)

lemma analyze_tsection_flange_succeeds:
  assumes "\<not> \<bar>block_stress (concrete s) * beta1 (concrete s) * flange_width s\<bar>
             < 1 / 1000000000"
    and "is_less_or_equal (a_rect_assumption s As Pu) (flange_depth s)"
    and "0 < (As * fy (tension_steel s) - Pu) /
               (block_stress (concrete s) * beta1 (concrete s) * flange_width s)"
  shows "\<exists>r. analyze_tsection s As Pu = Inr r"
  using assms
  unfolding analyze_tsection_def tsection_flange_case_def Let_def block_stress_def
    a_rect_assumption_def c_rect_assumption_def
  by (simp only: if_False if_True sum.case prod.case not_le [symmetric] sum.inject simp_thms)

lemma analyze_tsection_web_succeeds:
  assumes "\<not> \<bar>block_stress (concrete s) * beta1 (concrete s) * flange_width s\<bar>
             < 1 / 1000000000"
    and "\<not> is_less_or_equal (a_rect_assumption s As Pu) (flange_depth s)"
    and "\<not> \<bar>block_stress (concrete s) * beta1 (concrete s) * web_width s\<bar>
             < 1 / 1000000000"
    and "0 < (As * fy (tension_steel s) - Pu -
                block_stress (concrete s) * (flange_width s - web_width s) * flange_depth s) /
               (block_stress (concrete s) * beta1 (concrete s) * web_width s)"
  shows "\<exists>r. analyze_tsection s As Pu = Inr r"
  using assms
  unfolding analyze_tsection_def tsection_web_case_def Let_def block_stress_def
    a_rect_assumption_def c_rect_assumption_def
  by (simp only: if_False if_True sum.case prod.case not_le [symmetric] sum.inject simp_thms)

lemma analysis_succeeds_beyond_as_max:
  assumes v: "valid_section s"
    and cap: "get_maximum_capacity s pu = Inr cap"
    and more: "CapacityResult.as_max cap < As"
    and nd: "is_RectangularSection s \<or>
             \<not> \<bar>eta (concrete s) * 0.85 * fck (concrete s) * beta1 (concrete s) * web_width s\<bar>
                < 1 / 1000000000"
  shows "\<exists>r. analyze_section s As pu 0 = Inr r"
proof -
  let ?A = "CapacityResult.as_max cap"
  define K where "K = block_stress (concrete s)"
  define b1 where "b1 = beta1 (concrete s)"
  define T0 where "T0 = ?A * fy (tension_steel s) - pu"
  define T where "T = As * fy (tension_steel s) - pu"
  have K: "0 < K" unfolding K_def by (rule block_stress_pos [OF valid_section_concrete [OF v]])
  have b1: "0 < b1" unfolding b1_def by (rule beta1_pos [OF valid_section_concrete [OF v]])
  have Kb: "0 < K * b1" using K b1 by simp
  have "T0 < T" unfolding T0_def T_def using more fy_pos [of "tension_steel s"] by simp
  with capacity_tension_force_nonneg [OF v cap] have T: "0 < T" by (simp add: T0_def)
  note gv = get_maximum_capacity_view [OF cap]
  show ?thesis
  proof (cases "is_RectangularSection s")
    case True
    from gv(1) True have ok0: "analyze_rectangular s ?A pu = Inr (CapacityResult.analysis_result cap)"
      by (simp add: analyze_section_rectangular)
    note nd0 = analyze_rectangular_result(2) [OF ok0, folded block_stress_def]
    note w = analyze_rectangular_view(1) [OF v True gv(1)]
    have "0 < T / (K * b1 * width s)" using T Kb w by simp
    from analyze_rectangular_succeeds [OF nd0 this [unfolded T_def K_def b1_def]]
    show ?thesis using True by (simp add: analyze_section_rectangular)
  next
    case False
    then have tee: "is_TSection s" by (cases s) simp_all
    from gv(1) tee have ok0: "analyze_tsection s ?A pu = Inr (CapacityResult.analysis_result cap)"
      by (simp add: analyze_section_tsection)
    from valid_tsection_geometry [OF v tee]
    have geo: "0 \<le> web_width s" "0 \<le> flange_width s" by simp_all
    have ndf: "\<not> \<bar>block_stress (concrete s) * beta1 (concrete s) * flange_width s\<bar>
                 < 1 / 1000000000"
    proof (cases "is_less_or_equal (a_rect_assumption s ?A pu) (flange_depth s)")
      case True
      from analyze_tsection_flange_result(2) [OF ok0 True, folded block_stress_def]
      show ?thesis .
    next
      case False
      from analyze_tsection_web_result(3) [OF ok0 False, folded block_stress_def]
      show ?thesis .
    qed
    from nondegenerate_width [OF block_stress_beta1_pos [OF v] geo(2) ndf]
    have bf: "0 < flange_width s" .
    show ?thesis
    proof (cases "is_less_or_equal (a_rect_assumption s As pu) (flange_depth s)")
      case True
      have "0 < T / (K * b1 * flange_width s)" using T Kb bf by simp
      from analyze_tsection_flange_succeeds [OF ndf True this [unfolded T_def K_def b1_def]]
      show ?thesis using tee by (simp add: analyze_section_tsection)
    next
      case aweb: False
      from nd False
      have ndw: "\<not> \<bar>block_stress (concrete s) * beta1 (concrete s) * web_width s\<bar>
                 < 1 / 1000000000"
        by (simp add: block_stress_def)
      from nondegenerate_width [OF block_stress_beta1_pos [OF v] geo(1) ndw]
      have bw: "0 < web_width s" .
      from a_max_pos [OF v] K bw have "0 < K * web_width s * a_max s" by simp
      with web_numerator_beyond_as_max [OF v tee cap more aweb bw]
      have "0 < T - K * (flange_width s - web_width s) * flange_depth s"
        by (simp add: K_def T_def)
      then have "0 < (T - K * (flange_width s - web_width s) * flange_depth s) /
                     (K * b1 * web_width s)"
        using Kb bw by simp
      from analyze_tsection_web_succeeds [OF ndf aweb ndw this [unfolded T_def K_def b1_def]]
      show ?thesis using tee by (simp add: analyze_section_tsection)
    qed
  qed
qed

subsection \<open>Evaluations on the example T-sections\<close>

lemmas tsection_eval_defs = analyze_section_def analyze_tsection_def tsection_flange_case_def
  tsection_web_case_def Let_def effective_depth_def concrete_defs calculate_phi_def
  helper_defs phi_defs steel_defs

lemma valid_example_tee: "valid_section example_tee"
  by (simp add: example_tee_def valid_section_def valid_concrete_def effective_depth_def)

lemma valid_webless_tee: "valid_section webless_tee"
  by (simp add: webless_tee_def valid_section_def valid_concrete_def effective_depth_def)

lemma get_maximum_capacity_example_tee:
  "get_maximum_capacity example_tee 0 =
     Inr (CapacityResult (778158 / 83) (16212976315125 / 6889)
            (AnalysisResult (48675 / 166) (1 / 200) (47 / 60) (16212976315125 / 6889)))"
  by (simp add: get_maximum_capacity_def check_axial_load_limit_def example_tee_def
      tsection_eval_defs)

lemma analyze_example_tee_12000:
  "analyze_section example_tee 12000 0 0 =
     Inr (AnalysisResult (30875 / 68) (25443 / 12350000) (13 / 20) (39558796875 / 17))"
  by (simp add: example_tee_def tsection_eval_defs)

lemma get_maximum_capacity_webless_tee:
  "get_maximum_capacity webless_tee 0 =
     Inr (CapacityResult (10625 / 2) 857065625
            (AnalysisResult 125 (26367 / 2500000) (17 / 20) 857065625))"
  by (simp add: get_maximum_capacity_def check_axial_load_limit_def webless_tee_def
      tsection_eval_defs)

subsection \<open>Ductility boundary\<close>

text \<open>
  C6 (as amended): let \<open>get_maximum_capacity\<close> accept a valid section and \<open>pu\<close>, and let the
  section be rectangular, or a T-section whose analysis at \<open>As_max\<close> takes the same case
  (flange or web) as the capacity computation took for \<open>a_max\<close>.  Then the analysis at
  \<open>As_max\<close> has net tensile strain equal to the minimum allowable tensile strain of the
  steel (exactly, in real arithmetic), every analysis result at a larger area has a
  strictly smaller strain, and on a rectangular section or a T-section with non-degenerate
  web every larger area is analysed successfully.
\<close>

theorem ductility_boundary:
  assumes v: "valid_section s"
    and cap: "get_maximum_capacity s pu = Inr cap"
    and same: "is_RectangularSection s \<or> is_less_or_equal (a_max s) (flange_depth s) \<or>
               \<not> is_less_or_equal (a_rect_assumption s (CapacityResult.as_max cap) pu)
                    (flange_depth s)"
  shows "net_tensile_strain (CapacityResult.analysis_result cap) =
           min_allowable_tensile_strain (tension_steel s) \<and>
         (\<forall>As r. CapacityResult.as_max cap < As \<and> analyze_section s As pu 0 = Inr r \<longrightarrow>
            net_tensile_strain r < min_allowable_tensile_strain (tension_steel s)) \<and>
         (is_RectangularSection s \<or>
          \<not> \<bar>eta (concrete s) * 0.85 * fck (concrete s) * beta1 (concrete s) * web_width s\<bar>
             < 1 / 1000000000 \<longrightarrow>
          (\<forall>As. CapacityResult.as_max cap < As \<longrightarrow> (\<exists>r. analyze_section s As pu 0 = Inr r)))"
proof (intro conjI allI impI)
  note gv = get_maximum_capacity_view [OF cap]
  from analysis_result_shape(2) [OF gv(1)] depth_at_as_max [OF v cap same]
    strain_at_c_max [OF v]
  show "net_tensile_strain (CapacityResult.analysis_result cap) =
           min_allowable_tensile_strain (tension_steel s)"
    by simp
next
  fix As r
  assume h: "CapacityResult.as_max cap < As \<and> analyze_section s As pu 0 = Inr r"
  then have more: "CapacityResult.as_max cap < As"
    and ok: "analyze_section s As pu 0 = Inr r" by simp_all
  from depth_beyond_as_max [OF v cap same more ok] have lt: "c_max s < c r" .
  from strain_strictly_antitone
    [OF ultimate_strain_pos [OF valid_section_concrete [OF v]] valid_section_depth [OF v]
        c_max_pos [OF v] lt]
  show "net_tensile_strain r < min_allowable_tensile_strain (tension_steel s)"
    unfolding analysis_result_shape(2) [OF ok] strain_at_c_max [OF v] .
next
  fix As
  assume nd: "is_RectangularSection s \<or>
          \<not> \<bar>eta (concrete s) * 0.85 * fck (concrete s) * beta1 (concrete s) * web_width s\<bar>
             < 1 / 1000000000"
    and more: "CapacityResult.as_max cap < As"
  from analysis_succeeds_beyond_as_max [OF v cap more nd]
  show "\<exists>r. analyze_section s As pu 0 = Inr r" .
qed

theorem ductility_boundary_witness:
  "valid_section example_tee \<and>
   get_maximum_capacity example_tee 0 =
     Inr (CapacityResult (778158 / 83) (16212976315125 / 6889)
            (AnalysisResult (48675 / 166) (1 / 200) (47 / 60) (16212976315125 / 6889))) \<and>
   \<not> is_less_or_equal (a_rect_assumption example_tee (778158 / 83) 0)
        (flange_depth example_tee) \<and>
   (1 / 200 :: real) = min_allowable_tensile_strain (tension_steel example_tee) \<and>
   (778158 / 83 :: real) < 12000 \<and>
   analyze_section example_tee 12000 0 0 =
     Inr (AnalysisResult (30875 / 68) (25443 / 12350000) (13 / 20) (39558796875 / 17)) \<and>
   (25443 / 12350000 :: real) < min_allowable_tensile_strain (tension_steel example_tee)"
proof -
  let ?cap = "CapacityResult (778158 / 83) (16212976315125 / 6889)
            (AnalysisResult (48675 / 166) (1 / 200) (47 / 60) (16212976315125 / 6889))"
  let ?r = "AnalysisResult (30875 / 68) (25443 / 12350000) (13 / 20) (39558796875 / 17)"
  have web: "\<not> is_less_or_equal (a_rect_assumption example_tee (778158 / 83) 0)
        (flange_depth example_tee)"
    by (simp add: a_rect_assumption_def c_rect_assumption_def example_tee_def concrete_defs
        steel_defs helper_defs)
  then have same: "is_RectangularSection example_tee \<or>
      is_less_or_equal (a_max example_tee) (flange_depth example_tee) \<or>
      \<not> is_less_or_equal (a_rect_assumption example_tee (CapacityResult.as_max ?cap) 0)
           (flange_depth example_tee)"
    by simp
  note th = ductility_boundary [OF valid_example_tee get_maximum_capacity_example_tee same]
  from th have one: "(1 / 200 :: real) = min_allowable_tensile_strain (tension_steel example_tee)"
    by simp
  have more: "CapacityResult.as_max ?cap < 12000" by simp
  from th more analyze_example_tee_12000
  have "net_tensile_strain ?r < min_allowable_tensile_strain (tension_steel example_tee)"
    by blast
  then have two: "(25443 / 12350000 :: real) <
      min_allowable_tensile_strain (tension_steel example_tee)" by simp
  show ?thesis
    using valid_example_tee get_maximum_capacity_example_tee web one two
      analyze_example_tee_12000 by simp
qed

text \<open>
  Without the condition on the case the claim fails.  On the T-section without web width
  the capacity computation takes the web case (\<open>a_max\<close> exceeds the flange depth), the web
  contributes no force, and the analysis at the resulting \<open>As_max\<close> finds the stress block
  exactly filling the flange: the strain there is about 0.0105, not 0.004, and an area
  slightly above \<open>As_max\<close> still gives a strain above the threshold.
\<close>

theorem ductility_boundary_counterexample:
  "valid_section webless_tee \<and>
   get_maximum_capacity webless_tee 0 =
     Inr (CapacityResult (10625 / 2) 857065625
            (AnalysisResult 125 (26367 / 2500000) (17 / 20) 857065625)) \<and>
   \<not> is_equal (26367 / 2500000) (min_allowable_tensile_strain (tension_steel webless_tee)) \<and>
   (10625 / 2 :: real) < 10625 / 2 + 1 / 100000000000 \<and>
   analyze_section webless_tee (10625 / 2 + 1 / 100000000000) 0 0 =
     Inr (AnalysisResult (531250000000001 / 4250000000000)
            (56029874999999967 / 5312500000000010000) (17 / 20)
            (2678330078125004510312499999999 / 3125000000000000000000)) \<and>
   \<not> (56029874999999967 / 5312500000000010000
        < min_allowable_tensile_strain (tension_steel webless_tee))"
proof -
  have an: "analyze_section webless_tee (10625 / 2 + 1 / 100000000000) 0 0 =
     Inr (AnalysisResult (531250000000001 / 4250000000000)
            (56029874999999967 / 5312500000000010000) (17 / 20)
            (2678330078125004510312499999999 / 3125000000000000000000))"
    by (simp add: webless_tee_def tsection_eval_defs)
  have st: "min_allowable_tensile_strain (tension_steel webless_tee) = 1 / 250"
    by (simp add: webless_tee_def steel_defs)
  show ?thesis
    using valid_webless_tee get_maximum_capacity_webless_tee an
    by (simp add: st helper_defs)
qed

subsection \<open>Agreement of the two T-section cases at the flange depth\<close>

lemma is_less_or_equal_refl: "is_less_or_equal a a"
  by (simp add: helper_defs)

text \<open>
  C7 (as amended): for a valid T-section whose web-case denominator
  \<open>eta * 0.85 * fck * beta1 * bw\<close> is not degenerate (at least 1e-9 in absolute value), at
  the area where the trial stress-block depth computed with the full flange width equals
  the flange depth exactly, the web case yields the same neutral-axis depth and nominal
  moment as the flange case, hence the same strain, \<open>phi\<close> and \<open>phi * Mn\<close>; the analysis
  returns this common result.
\<close>

theorem tsection_cases_agree_at_flange_depth:
  assumes v: "valid_section s" and tee: "is_TSection s"
    and at: "a_rect_assumption s As Pu = flange_depth s"
    and ndw: "\<not> \<bar>eta (concrete s) * 0.85 * fck (concrete s) * beta1 (concrete s) *
                 web_width s\<bar> < 1 / 1000000000"
  shows "tsection_web_case s As Pu = Inr (tsection_flange_case s As Pu) \<and>
         analyze_section s As Pu 0 =
           (case tsection_flange_case s As Pu of
              (cc, Mn) \<Rightarrow>
                if cc \<le> 0 then Inl SectionCapacityError
                else Inr (AnalysisResult cc
                       (ultimate_strain (concrete s) * (effective_depth s - cc) / cc)
                       (calculate_phi (tension_steel s)
                          (ultimate_strain (concrete s) * (effective_depth s - cc) / cc))
                       (calculate_phi (tension_steel s)
                          (ultimate_strain (concrete s) * (effective_depth s - cc) / cc)
                        * Mn)))"
proof
  define K where "K = eta (concrete s) * 0.85 * fck (concrete s)"
  define b1 where "b1 = beta1 (concrete s)"
  define T where "T = As * fy (tension_steel s) - Pu"
  define hf where "hf = flange_depth s"
  define bf where "bf = flange_width s"
  define bw where "bw = web_width s"
  define d where "d = effective_depth s"
  define P where "P = Pu * (effective_depth s - height s / 2)"
  have K: "0 < K" using block_stress_pos [OF valid_section_concrete [OF v]]
    by (simp add: K_def block_stress_def)
  have b1: "0 < b1" unfolding b1_def by (rule beta1_pos [OF valid_section_concrete [OF v]])
  from valid_tsection_geometry [OF v tee]
  have geo: "0 \<le> bw" "bw \<le> bf" by (simp_all add: bw_def bf_def)
  have Kb: "0 < K * b1" using K b1 by simp
  from ndw have ndw': "\<not> \<bar>K * b1 * bw\<bar> < 1 / 1000000000"
    by (simp add: K_def b1_def bw_def)
  from nondegenerate_width [OF Kb geo(1) ndw'] have bw: "0 < bw" .
  with geo have bf: "0 < bf" by simp
  from at have "T / (K * bf) = hf"
    using a_rect_assumption_eq [OF v, of As Pu]
    by (simp add: T_def K_def block_stress_def bf_def hf_def)
  then have T: "T = K * bf * hf" using K bf by (simp add: field_simps)
  have ccf: "T / (K * b1 * bf) = hf / b1" unfolding T using K b1 bf by simp
  have ccw: "(T - K * (bf - bw) * hf) / (K * b1 * bw) = hf / b1"
  proof -
    have "T - K * (bf - bw) * hf = K * bw * hf" unfolding T by (simp add: algebra_simps)
    then show ?thesis using K b1 bw by simp
  qed
  have b1c: "b1 * (hf / b1) = hf" using b1 by simp
  have fl: "tsection_flange_case s As Pu =
      (T / (K * b1 * bf),
       K * (b1 * (T / (K * b1 * bf))) * bf * (d - b1 * (T / (K * b1 * bf)) / 2) + P)"
    unfolding tsection_flange_case_def Let_def K_def b1_def T_def bf_def d_def P_def
    by (rule refl)
  have wb: "tsection_web_case s As Pu =
      Inr ((T - K * (bf - bw) * hf) / (K * b1 * bw),
           K * (bf - bw) * hf * (d - hf / 2) +
           K * (b1 * ((T - K * (bf - bw) * hf) / (K * b1 * bw))) * bw *
             (d - b1 * ((T - K * (bf - bw) * hf) / (K * b1 * bw)) / 2) + P)"
    using ndw
    unfolding tsection_web_case_def Let_def K_def b1_def T_def bf_def bw_def hf_def d_def P_def
    by (simp only: if_False)
  have Mn: "K * (bf - bw) * hf * (d - hf / 2) + K * hf * bw * (d - hf / 2) =
            K * hf * bf * (d - hf / 2)"
    by (simp add: algebra_simps)
  show "tsection_web_case s As Pu = Inr (tsection_flange_case s As Pu)"
    unfolding fl wb ccf ccw b1c using Mn by simp
  have ndf: "\<not> \<bar>eta (concrete s) * 0.85 * fck (concrete s) * beta1 (concrete s) *
                 flange_width s\<bar> < 1 / 1000000000"
  proof -
    have "K * b1 * bw \<le> K * b1 * bf" using Kb geo by (intro mult_left_mono) simp_all
    moreover have "0 \<le> K * b1 * bw" using Kb geo by simp
    ultimately have "\<bar>K * b1 * bw\<bar> \<le> \<bar>K * b1 * bf\<bar>" by simp
    with ndw' have "\<not> \<bar>K * b1 * bf\<bar> < 1 / 1000000000" by simp
    then show ?thesis by (simp add: K_def b1_def bf_def)
  qed
  have afl: "is_less_or_equal
               (beta1 (concrete s) *
                ((As * fy (tension_steel s) - Pu) /
                 (eta (concrete s) * 0.85 * fck (concrete s) * beta1 (concrete s) *
                  flange_width s)))
               (flange_depth s)"
    using at is_less_or_equal_refl [of "flange_depth s"]
    by (simp add: a_rect_assumption_def c_rect_assumption_def)
  have "analyze_tsection s As Pu =
           (case tsection_flange_case s As Pu of
              (cc, Mn) \<Rightarrow>
                if cc \<le> 0 then Inl SectionCapacityError
                else Inr (AnalysisResult cc
                       (ultimate_strain (concrete s) * (effective_depth s - cc) / cc)
                       (calculate_phi (tension_steel s)
                          (ultimate_strain (concrete s) * (effective_depth s - cc) / cc))
                       (calculate_phi (tension_steel s)
                          (ultimate_strain (concrete s) * (effective_depth s - cc) / cc)
                        * Mn)))"
    using ndf afl unfolding analyze_tsection_def Let_def
    by (simp only: if_False if_True sum.case)
  then show "analyze_section s As Pu 0 =
           (case tsection_flange_case s As Pu of
              (cc, Mn) \<Rightarrow>
                if cc \<le> 0 then Inl SectionCapacityError
                else Inr (AnalysisResult cc
                       (ultimate_strain (concrete s) * (effective_depth s - cc) / cc)
                       (calculate_phi (tension_steel s)
                          (ultimate_strain (concrete s) * (effective_depth s - cc) / cc))
                       (calculate_phi (tension_steel s)
                          (ultimate_strain (concrete s) * (effective_depth s - cc) / cc)
                        * Mn)))"
    using tee by (simp only: analyze_section_tsection)
qed

theorem tsection_cases_agree_witness:
  "valid_section example_tee \<and> is_TSection example_tee \<and>
   a_rect_assumption example_tee 7650 0 = flange_depth example_tee \<and>
   \<not> \<bar>eta (concrete example_tee) * 0.85 * fck (concrete example_tee) *
       beta1 (concrete example_tee) * web_width example_tee\<bar> < 1 / 1000000000 \<and>
   tsection_flange_case example_tee 7650 0 = (375 / 2, 2534062500) \<and>
   tsection_web_case example_tee 7650 0 = Inr (375 / 2, 2534062500) \<and>
   analyze_section example_tee 7650 0 0 =
     Inr (AnalysisResult (375 / 2) (121 / 12500) (17 / 20) 2153953125)"
proof -
  have tee: "is_TSection example_tee" by (simp add: example_tee_def)
  have at: "a_rect_assumption example_tee 7650 0 = flange_depth example_tee"
    by (simp add: a_rect_assumption_def c_rect_assumption_def example_tee_def concrete_defs
        steel_defs)
  have nd: "\<not> \<bar>eta (concrete example_tee) * 0.85 * fck (concrete example_tee) *
       beta1 (concrete example_tee) * web_width example_tee\<bar> < 1 / 1000000000"
    by (simp add: example_tee_def concrete_defs)
  have fl: "tsection_flange_case example_tee 7650 0 = (375 / 2, 2534062500)"
    by (simp add: example_tee_def tsection_eval_defs)
  note th = tsection_cases_agree_at_flange_depth [OF valid_example_tee tee at nd]
  from th fl have wb: "tsection_web_case example_tee 7650 0 = Inr (375 / 2, 2534062500)"
    by simp
  from th fl have an: "analyze_section example_tee 7650 0 0 =
     Inr (AnalysisResult (375 / 2) (121 / 12500) (17 / 20) 2153953125)"
    by (simp add: example_tee_def effective_depth_def concrete_defs calculate_phi_def
        helper_defs phi_defs steel_defs)
  show ?thesis using valid_example_tee tee at nd fl wb an by simp
qed

text \<open>
  For a T-section without web width, which the constructor accepts, the two cases do not
  agree at that area: the flange case gives a result and the web case fails on its
  degenerate denominator; one hundredth of a square millimetre more steel and the
  analysis itself fails.
\<close>

theorem tsection_cases_agree_counterexample:
  "valid_section webless_tee \<and> is_TSection webless_tee \<and>
   a_rect_assumption webless_tee (10625 / 2) 0 = flange_depth webless_tee \<and>
   tsection_flange_case webless_tee (10625 / 2) 0 = (125, 1008312500) \<and>
   tsection_web_case webless_tee (10625 / 2) 0 = Inl SectionCapacityError \<and>
   analyze_section webless_tee (10625 / 2) 0 0 =
     Inr (AnalysisResult 125 (26367 / 2500000) (17 / 20) 857065625) \<and>
   analyze_section webless_tee (10625 / 2 + 1 / 100) 0 0 = Inl SectionCapacityError"
proof -
  have tee: "is_TSection webless_tee" by (simp add: webless_tee_def)
  have at: "a_rect_assumption webless_tee (10625 / 2) 0 = flange_depth webless_tee"
    by (simp add: a_rect_assumption_def c_rect_assumption_def webless_tee_def concrete_defs
        steel_defs)
  have fl: "tsection_flange_case webless_tee (10625 / 2) 0 = (125, 1008312500)"
    by (simp add: webless_tee_def tsection_eval_defs)
  have wb: "tsection_web_case webless_tee (10625 / 2) 0 = Inl SectionCapacityError"
    by (simp add: webless_tee_def tsection_eval_defs)
  have an: "analyze_section webless_tee (10625 / 2) 0 0 =
     Inr (AnalysisResult 125 (26367 / 2500000) (17 / 20) 857065625)"
    by (simp add: webless_tee_def tsection_eval_defs)
  have an2: "analyze_section webless_tee (10625 / 2 + 1 / 100) 0 0 = Inl SectionCapacityError"
    by (simp add: webless_tee_def tsection_eval_defs)
  show ?thesis using valid_webless_tee tee at fl wb an an2 by simp
qed

section \<open>How the design strength varies with the steel area\<close>

subsection \<open>The factor falls and the nominal moment rises\<close>

lemma calculate_phi_mono:
  assumes le: "et2 \<le> et1"
  shows "calculate_phi st et2 \<le> calculate_phi st et1"
proof -
  let ?lo = "compression_controlled_limit_strain st"
  let ?hi = "tension_controlled_limit_strain st"
  let ?C = PHI_COMPRESSION_CONTROLLED_TIED
  let ?T = PHI_TENSION_CONTROLLED
  note b1 = calculate_phi_bounds [of st et1]
  note b2 = calculate_phi_bounds [of st et2]
  show ?thesis
  proof (cases "is_greater_or_equal et1 ?hi")
    case True
    then have "calculate_phi st et1 = ?T" by (simp add: calculate_phi_def)
    with b2 show ?thesis by simp
  next
    case hi1: False
    with le have hi2: "\<not> is_greater_or_equal et2 ?hi" by (simp add: helper_defs)
    show ?thesis
    proof (cases "is_less_or_equal et2 ?lo")
      case True
      with hi2 have "calculate_phi st et2 = ?C" by (simp add: calculate_phi_def)
      with b1 show ?thesis by simp
    next
      case lo2: False
      with le have lo1: "\<not> is_less_or_equal et1 ?lo" by (simp add: helper_defs)
      from calculate_phi_interpolation_range [OF hi1 lo1]
      have pos: "0 < ?hi - ?lo" by simp
      have e1: "calculate_phi st et1 = ?C + (?T - ?C) * ((et1 - ?lo) / (?hi - ?lo))"
        using hi1 lo1 by (simp add: calculate_phi_def Let_def)
      have e2: "calculate_phi st et2 = ?C + (?T - ?C) * ((et2 - ?lo) / (?hi - ?lo))"
        using hi2 lo2 by (simp add: calculate_phi_def Let_def)
      have "(et2 - ?lo) / (?hi - ?lo) \<le> (et1 - ?lo) / (?hi - ?lo)"
        using le pos by (simp add: divide_right_mono)
      moreover have "0 \<le> ?T - ?C" using phi_constants_ordered by simp
      ultimately have "(?T - ?C) * ((et2 - ?lo) / (?hi - ?lo)) \<le>
                       (?T - ?C) * ((et1 - ?lo) / (?hi - ?lo))"
        by (rule mult_left_mono)
      then show ?thesis unfolding e1 e2 by simp
    qed
  qed
qed

lemma calculate_phi_pos: "0 < calculate_phi st et"
  using calculate_phi_bounds [of st et] by (simp add: phi_defs)

text \<open>The neutral-axis depth does not decrease when the steel area grows.\<close>

lemma depth_monotone:
  assumes v: "valid_section s"
    and le: "As1 \<le> As2"
    and ok1: "analyze_section s As1 pu 0 = Inr r1"
    and ok2: "analyze_section s As2 pu 0 = Inr r2"
  shows "c r1 \<le> c r2"
proof -
  define K where "K = block_stress (concrete s)"
  define b1 where "b1 = beta1 (concrete s)"
  define T1 where "T1 = As1 * fy (tension_steel s) - pu"
  define T2 where "T2 = As2 * fy (tension_steel s) - pu"
  define hf where "hf = flange_depth s"
  define bf where "bf = flange_width s"
  define bw where "bw = web_width s"
  have K: "0 < K" unfolding K_def by (rule block_stress_pos [OF valid_section_concrete [OF v]])
  have b1: "0 < b1" unfolding b1_def by (rule beta1_pos [OF valid_section_concrete [OF v]])
  have TT: "T1 \<le> T2" unfolding T1_def T2_def using le fy_pos [of "tension_steel s"] by simp
  show ?thesis
  proof (cases "is_RectangularSection s")
    case True
    note r1 = analyze_rectangular_view [OF v True ok1, folded K_def b1_def T1_def]
    note r2 = analyze_rectangular_view [OF v True ok2, folded K_def b1_def T2_def]
    have "0 \<le> K * b1 * width s" using K b1 r1(1) by simp
    with TT show ?thesis unfolding r1(2) r2(2) by (rule divide_right_mono)
  next
    case False
    then have tee: "is_TSection s" by (cases s) simp_all
    from valid_tsection_geometry [OF v tee]
    have geo: "0 \<le> bw" "bw \<le> bf" "0 \<le> hf" by (simp_all add: bw_def bf_def hf_def)
    have ar: "a_rect_assumption s X pu = (X * fy (tension_steel s) - pu) / (K * bf)" for X
      by (simp add: a_rect_assumption_eq [OF v] K_def bf_def)
    show ?thesis
    proof (cases "is_less_or_equal (a_rect_assumption s As2 pu) (flange_depth s)")
      case fl2: True
      note f2 = analyze_tsection_flange_view [OF v tee ok2 fl2,
          folded K_def b1_def T2_def bf_def]
      have Kbf: "0 \<le> K * bf" using K f2(1) by simp
      have "a_rect_assumption s As1 pu \<le> a_rect_assumption s As2 pu"
        unfolding ar using TT Kbf by (simp add: T1_def T2_def divide_right_mono)
      from is_less_or_equal_mono [OF fl2 this]
      have fl1: "is_less_or_equal (a_rect_assumption s As1 pu) (flange_depth s)" .
      note f1 = analyze_tsection_flange_view [OF v tee ok1 fl1,
          folded K_def b1_def T1_def bf_def]
      have "0 \<le> K * b1 * bf" using K b1 f2(1) by simp
      with TT show ?thesis unfolding f1(2) f2(2) by (rule divide_right_mono)
    next
      case web2: False
      note w2 = analyze_tsection_web_view [OF v tee ok2 web2,
          folded K_def b1_def T2_def bf_def bw_def hf_def]
      have bw: "0 < bw" and bf: "0 < bf" using w2(1,2) by simp_all
      have den: "0 \<le> K * b1 * bw" using K b1 bw by simp
      show ?thesis
      proof (cases "is_less_or_equal (a_rect_assumption s As1 pu) (flange_depth s)")
        case web1: False
        note w1 = analyze_tsection_web_view [OF v tee ok1 web1,
            folded K_def b1_def T1_def bf_def bw_def hf_def]
        from TT have "T1 - K * (bf - bw) * hf \<le> T2 - K * (bf - bw) * hf" by simp
        then show ?thesis unfolding w1(3) w2(3) using den by (rule divide_right_mono)
      next
        case fl1: True
        note f1 = analyze_tsection_flange_view [OF v tee ok1 fl1,
            folded K_def b1_def T1_def bf_def]
        from not_is_less_or_equal_gap [OF web2]
        have "hf < T2 / (K * bf)" by (simp add: ar hf_def T2_def)
        then have Thf: "K * bf * hf < T2" using K bf by (simp add: field_simps)
        have "0 \<le> (bf - bw) * (T2 - K * bf * hf)"
          using geo Thf by (intro mult_nonneg_nonneg) simp_all
        then have cross: "bw * T2 \<le> bf * (T2 - K * (bf - bw) * hf)"
          by (simp add: algebra_simps)
        have "T2 / (K * b1 * bf) \<le> (T2 - K * (bf - bw) * hf) / (K * b1 * bw)"
        proof -
          have "T2 / (K * b1 * bf) = (bw * T2) / (K * b1 * bf * bw)"
            using bw by simp
          also have "\<dots> \<le> (bf * (T2 - K * (bf - bw) * hf)) / (K * b1 * bf * bw)"
            using cross K b1 bf bw by (intro divide_right_mono) simp_all
          also have "\<dots> = (T2 - K * (bf - bw) * hf) / (K * b1 * bw)"
            using bf by simp
          finally show ?thesis .
        qed
        moreover have "T1 / (K * b1 * bf) \<le> T2 / (K * b1 * bf)"
          using TT K b1 bf by (intro divide_right_mono) simp_all
        ultimately show ?thesis unfolding f1(2) w2(3) by simp
      qed
    qed
  qed
qed

lemma phi_antitone_in_area:
  assumes v: "valid_section s"
    and le: "As1 \<le> As2"
    and ok1: "analyze_section s As1 pu 0 = Inr r1"
    and ok2: "analyze_section s As2 pu 0 = Inr r2"
  shows "net_tensile_strain r2 \<le> net_tensile_strain r1" and "phi r2 \<le> phi r1"
proof -
  from strain_antitone
    [OF ultimate_strain_pos [OF valid_section_concrete [OF v]] valid_section_depth [OF v]
        analysis_result_shape(1) [OF ok1] depth_monotone [OF v le ok1 ok2]]
  show et: "net_tensile_strain r2 \<le> net_tensile_strain r1"
    unfolding analysis_result_shape(2) [OF ok1] analysis_result_shape(2) [OF ok2] .
  from calculate_phi_mono [OF et]
  show "phi r2 \<le> phi r1"
    unfolding analysis_result_shape(3) [OF ok1] analysis_result_shape(3) [OF ok2] .
qed

text \<open>Up to the maximum area the neutral axis stays above its limiting depth.\<close>

lemma depth_up_to_as_max:
  assumes v: "valid_section s"
    and cap: "get_maximum_capacity s pu = Inr cap"
    and ub: "As \<le> CapacityResult.as_max cap"
    and ok: "analyze_section s As pu 0 = Inr r"
  shows "c r \<le> c_max s"
proof -
  let ?A = "CapacityResult.as_max cap"
  define K where "K = block_stress (concrete s)"
  define b1 where "b1 = beta1 (concrete s)"
  define T0 where "T0 = ?A * fy (tension_steel s) - pu"
  define T where "T = As * fy (tension_steel s) - pu"
  define hf where "hf = flange_depth s"
  define bf where "bf = flange_width s"
  define bw where "bw = web_width s"
  define am where "am = a_max s"
  have K: "0 < K" unfolding K_def by (rule block_stress_pos [OF valid_section_concrete [OF v]])
  have b1: "0 < b1" unfolding b1_def by (rule beta1_pos [OF valid_section_concrete [OF v]])
  have cm: "c_max s = am / b1" using b1 by (simp add: a_max_def b1_def am_def)
  have TT: "T \<le> T0" unfolding T0_def T_def using ub fy_pos [of "tension_steel s"] by simp
  note gv = get_maximum_capacity_view [OF cap, folded K_def T0_def am_def hf_def bf_def bw_def]
  show ?thesis
  proof (cases "is_RectangularSection s")
    case True
    then have nt: "\<not> is_TSection s" by (cases s) simp_all
    note rv = analyze_rectangular_view [OF v True ok, folded K_def b1_def T_def]
    from gv(3) nt have T0: "T0 = K * am * width s" by simp
    have den: "0 \<le> K * b1 * width s" using K b1 rv(1) by simp
    have "T / (K * b1 * width s) \<le> T0 / (K * b1 * width s)"
      using TT den by (rule divide_right_mono)
    also have "\<dots> = c_max s" unfolding cm T0 using K b1 rv(1) by simp
    finally show ?thesis unfolding rv(2) .
  next
    case False
    then have tee: "is_TSection s" by (cases s) simp_all
    from valid_tsection_geometry [OF v tee]
    have geo: "0 \<le> bw" "bw \<le> bf" "0 \<le> hf" by (simp_all add: bw_def bf_def hf_def)
    have ar: "a_rect_assumption s X pu = (X * fy (tension_steel s) - pu) / (K * bf)" for X
      by (simp add: a_rect_assumption_eq [OF v] K_def bf_def)
    show ?thesis
    proof (cases "is_less_or_equal (a_rect_assumption s As pu) (flange_depth s)")
      case afl: True
      note fv = analyze_tsection_flange_view [OF v tee ok afl,
          folded K_def b1_def T_def bf_def]
      have den: "0 \<le> K * b1 * bf" using K b1 fv(1) by simp
      have step: "T / (K * b1 * bf) \<le> T0 / (K * b1 * bf)"
        using TT den by (rule divide_right_mono)
      have "T0 \<le> K * am * bf"
      proof (cases "is_less_or_equal (a_max s) (flange_depth s)")
        case True
        with gv(3) tee show ?thesis by (simp add: am_def hf_def)
      next
        case False
        with gv(3) tee have T0: "T0 = K * (bf - bw) * hf + K * bw * am"
          by (simp add: am_def hf_def)
        from not_is_less_or_equal_gap [OF False] have "hf \<le> am"
          by (simp add: am_def hf_def)
        moreover have "0 \<le> K * (bf - bw)" using K geo by simp
        ultimately have "K * (bf - bw) * hf \<le> K * (bf - bw) * am"
          by (intro mult_left_mono)
        then show ?thesis unfolding T0 by (simp add: algebra_simps)
      qed
      then have "T0 / (K * b1 * bf) \<le> (K * am * bf) / (K * b1 * bf)"
        using den by (rule divide_right_mono)
      also have "\<dots> = c_max s" unfolding cm using K b1 fv(1) by simp
      finally show ?thesis using step unfolding fv(2) by simp
    next
      case aweb: False
      note wv = analyze_tsection_web_view [OF v tee ok aweb,
          folded K_def b1_def T_def bf_def bw_def hf_def]
      have bw: "0 < bw" and bf: "0 < bf" using wv(1,2) by simp_all
      have den: "0 \<le> K * b1 * bw" using K b1 bw by simp
      have gweb: "\<not> is_less_or_equal (a_max s) (flange_depth s)"
      proof
        assume gfl: "is_less_or_equal (a_max s) (flange_depth s)"
        with gv(3) tee have T0: "T0 = K * am * bf" by (simp add: am_def hf_def)
        have "T / (K * bf) \<le> T0 / (K * bf)"
          using TT K bf by (intro divide_right_mono) simp_all
        also have "\<dots> = a_max s" unfolding T0 using K bf by (simp add: am_def)
        finally have "a_rect_assumption s As pu \<le> a_max s" by (simp add: ar T_def)
        from is_less_or_equal_mono [OF gfl this] aweb show False by simp
      qed
      with gv(3) tee have T0: "T0 = K * (bf - bw) * hf + K * bw * am"
        by (simp add: am_def hf_def)
      from TT have "T - K * (bf - bw) * hf \<le> K * bw * am" unfolding T0 by simp
      then have "(T - K * (bf - bw) * hf) / (K * b1 * bw) \<le> (K * bw * am) / (K * b1 * bw)"
        using den by (rule divide_right_mono)
      also have "\<dots> = c_max s" unfolding cm using K b1 bw by simp
      finally show ?thesis unfolding wv(3) .
    qed
  qed
qed

lemma block_moment_mono:
  fixes K b d a1 a2 :: real
  assumes K: "0 \<le> K" and b: "0 \<le> b" and le: "a1 \<le> a2" and ub: "a2 \<le> d"
  shows "K * a1 * b * (d - a1 / 2) \<le> K * a2 * b * (d - a2 / 2)"
proof -
  have "K * a2 * b * (d - a2 / 2) - K * a1 * b * (d - a1 / 2) =
        (K * b) * ((a2 - a1) * (d - (a1 + a2) / 2))"
    by (simp add: field_simps)
  moreover have "0 \<le> (K * b) * ((a2 - a1) * (d - (a1 + a2) / 2))"
    using K b le ub by (intro mult_nonneg_nonneg) simp_all
  ultimately show ?thesis by simp
qed

lemma nominal_moment_monotone:
  assumes v: "valid_section s"
    and cap: "get_maximum_capacity s pu = Inr cap"
    and le: "As1 \<le> As2"
    and ub: "As2 \<le> CapacityResult.as_max cap"
    and ok1: "analyze_section s As1 pu 0 = Inr r1"
    and ok2: "analyze_section s As2 pu 0 = Inr r2"
    and same: "is_RectangularSection s \<or>
               is_less_or_equal (a_rect_assumption s As1 pu) (flange_depth s) =
               is_less_or_equal (a_rect_assumption s As2 pu) (flange_depth s)"
  shows "phi_mn r1 / phi r1 \<le> phi_mn r2 / phi r2"
proof -
  define K where "K = block_stress (concrete s)"
  define b1 where "b1 = beta1 (concrete s)"
  define d where "d = effective_depth s"
  define P where "P = pu * (effective_depth s - height s / 2)"
  define a1 where "a1 = b1 * c r1"
  define a2 where "a2 = b1 * c r2"
  have K: "0 < K" unfolding K_def by (rule block_stress_pos [OF valid_section_concrete [OF v]])
  have b1: "0 < b1" unfolding b1_def by (rule beta1_pos [OF valid_section_concrete [OF v]])
  have p1: "phi r1 \<noteq> 0" and p2: "phi r2 \<noteq> 0"
    using calculate_phi_pos [of "tension_steel s"]
    by (simp_all add: analysis_result_shape(3) [OF ok1] analysis_result_shape(3) [OF ok2]
        less_imp_neq [THEN not_sym])
  have a12: "a1 \<le> a2"
    unfolding a1_def a2_def using depth_monotone [OF v le ok1 ok2] b1 by simp
  have "a2 \<le> a_max s"
    unfolding a2_def a_max_def b1_def [symmetric]
    using depth_up_to_as_max [OF v cap ub ok2] b1 by simp
  with a_max_less_depth [OF v] have a2d: "a2 \<le> d" by (simp add: d_def)
  show ?thesis
  proof (cases "is_RectangularSection s")
    case True
    note r1 = analyze_rectangular_view [OF v True ok1,
        folded K_def b1_def d_def P_def, folded a1_def]
    note r2 = analyze_rectangular_view [OF v True ok2,
        folded K_def b1_def d_def P_def, folded a2_def]
    have "K * a1 * width s * (d - a1 / 2) \<le> K * a2 * width s * (d - a2 / 2)"
      using K r1(1) a12 a2d by (intro block_moment_mono) simp_all
    then show ?thesis unfolding r1(3) r2(3) using p1 p2 by simp
  next
    case False
    then have tee: "is_TSection s" by (cases s) simp_all
    from same False
    have eq: "is_less_or_equal (a_rect_assumption s As1 pu) (flange_depth s) =
              is_less_or_equal (a_rect_assumption s As2 pu) (flange_depth s)" by simp
    show ?thesis
    proof (cases "is_less_or_equal (a_rect_assumption s As2 pu) (flange_depth s)")
      case fl2: True
      with eq have fl1: "is_less_or_equal (a_rect_assumption s As1 pu) (flange_depth s)"
        by simp
      note f1 = analyze_tsection_flange_view [OF v tee ok1 fl1,
          folded K_def b1_def d_def P_def, folded a1_def]
      note f2 = analyze_tsection_flange_view [OF v tee ok2 fl2,
          folded K_def b1_def d_def P_def, folded a2_def]
      have "K * a1 * flange_width s * (d - a1 / 2) \<le> K * a2 * flange_width s * (d - a2 / 2)"
        using K f1(1) a12 a2d by (intro block_moment_mono) simp_all
      then show ?thesis unfolding f1(3) f2(3) using p1 p2 by simp
    next
      case web2: False
      with eq have web1: "\<not> is_less_or_equal (a_rect_assumption s As1 pu) (flange_depth s)"
        by simp
      note w1 = analyze_tsection_web_view [OF v tee ok1 web1,
          folded K_def b1_def d_def P_def, folded a1_def]
      note w2 = analyze_tsection_web_view [OF v tee ok2 web2,
          folded K_def b1_def d_def P_def, folded a2_def]
      have "K * a1 * web_width s * (d - a1 / 2) \<le> K * a2 * web_width s * (d - a2 / 2)"
        using K w1(1) a12 a2d by (intro block_moment_mono) simp_all
      then show ?thesis unfolding w1(4) w2(4) using p1 p2 by simp
    qed
  qed
qed

lemmas rectangular_eval_defs = analyze_section_def analyze_rectangular_def Let_def
  effective_depth_def concrete_defs calculate_phi_def helper_defs phi_defs steel_defs

lemma analyze_example_beam_3000:
  "analyze_section example_beam 3000 0 0 =
     Inr (AnalysisResult (3000 / 17) (130163 / 20000000) (17 / 20) 462990000)"
  by (simp add: example_beam_def rectangular_eval_defs)

lemma get_maximum_capacity_example_beam_loaded:
  "get_maximum_capacity example_beam 3000000 =
     Inr (CapacityResult (1683489 / 146) (5703203067311 / 5329)
            (AnalysisResult (34617 / 146) (1 / 250) (47 / 60) (5703203067311 / 5329)))"
  by (simp add: get_maximum_capacity_def check_axial_load_limit_def
      get_max_axial_capacity_def gross_area_def example_beam_def rectangular_eval_defs)

text \<open>
  C2 (as amended): for a valid section and a fixed \<open>Pu\<close> accepted by
  \<open>get_maximum_capacity\<close>, over the areas up to \<open>As_max\<close> at which the analysis succeeds,
  the factor \<open>phi\<close> is non-increasing in \<open>As\<close> and, within one equilibrium case (always,
  for a rectangular section), the nominal moment \<open>Mn = phi_mn / phi\<close> is non-decreasing.
  Hence \<open>phi * Mn\<close> is non-decreasing between two areas of one case with the same \<open>phi\<close>,
  in particular whenever the larger area is still tension-controlled.
\<close>

theorem design_moment_monotone_parts:
  assumes v: "valid_section s"
    and cap: "get_maximum_capacity s pu = Inr cap"
    and le: "As1 \<le> As2"
    and ub: "As2 \<le> CapacityResult.as_max cap"
    and ok1: "analyze_section s As1 pu 0 = Inr r1"
    and ok2: "analyze_section s As2 pu 0 = Inr r2"
  shows "phi r2 \<le> phi r1 \<and>
    ((is_RectangularSection s \<or>
      is_less_or_equal (a_rect_assumption s As1 pu) (flange_depth s) =
      is_less_or_equal (a_rect_assumption s As2 pu) (flange_depth s)) \<longrightarrow>
       phi_mn r1 / phi r1 \<le> phi_mn r2 / phi r2 \<and>
       (phi r1 = phi r2 \<longrightarrow> phi_mn r1 \<le> phi_mn r2) \<and>
       (is_greater_or_equal (net_tensile_strain r2)
          (tension_controlled_limit_strain (tension_steel s)) \<longrightarrow>
        phi_mn r1 \<le> phi_mn r2))"
proof (intro conjI impI)
  show "phi r2 \<le> phi r1" by (rule phi_antitone_in_area(2) [OF v le ok1 ok2])
next
  assume same: "is_RectangularSection s \<or>
      is_less_or_equal (a_rect_assumption s As1 pu) (flange_depth s) =
      is_less_or_equal (a_rect_assumption s As2 pu) (flange_depth s)"
  note mn = nominal_moment_monotone [OF v cap le ub ok1 ok2 same]
  show "phi_mn r1 / phi r1 \<le> phi_mn r2 / phi r2" by (rule mn)
  have pos2: "0 < phi r2"
    using calculate_phi_pos by (simp add: analysis_result_shape(3) [OF ok2])
  have eq_case: "phi_mn r1 \<le> phi_mn r2" if eq: "phi r1 = phi r2"
  proof -
    from mn eq have "phi_mn r1 / phi r2 \<le> phi_mn r2 / phi r2" by simp
    with pos2 show ?thesis by (simp add: divide_le_cancel)
  qed
  show "phi_mn r1 \<le> phi_mn r2" if "phi r1 = phi r2" using that by (rule eq_case)
  show "phi_mn r1 \<le> phi_mn r2"
    if tc: "is_greater_or_equal (net_tensile_strain r2)
              (tension_controlled_limit_strain (tension_steel s))"
  proof -
    from tc phi_antitone_in_area(1) [OF v le ok1 ok2]
    have tc1: "is_greater_or_equal (net_tensile_strain r1)
              (tension_controlled_limit_strain (tension_steel s))"
      by (simp add: helper_defs)
    from tc have "phi r2 = PHI_TENSION_CONTROLLED"
      by (simp add: analysis_result_shape(3) [OF ok2] calculate_phi_def)
    moreover from tc1 have "phi r1 = PHI_TENSION_CONTROLLED"
      by (simp add: analysis_result_shape(3) [OF ok1] calculate_phi_def)
    ultimately show ?thesis by (intro eq_case) simp
  qed
qed

theorem design_moment_monotone_parts_witness:
  "valid_section example_beam \<and>
   get_maximum_capacity example_beam 0 =
     Inr (CapacityResult (588489 / 146) (2891755892311 / 5329)
            (AnalysisResult (34617 / 146) (1 / 250) (47 / 60) (2891755892311 / 5329))) \<and>
   (2000 :: real) \<le> 3000 \<and> (3000 :: real) \<le> 588489 / 146 \<and>
   analyze_section example_beam 2000 0 0 =
     Inr (AnalysisResult (2000 / 17) (456489 / 40000000) (17 / 20) 324660000) \<and>
   analyze_section example_beam 3000 0 0 =
     Inr (AnalysisResult (3000 / 17) (130163 / 20000000) (17 / 20) 462990000) \<and>
   is_RectangularSection example_beam \<and>
   is_greater_or_equal (130163 / 20000000)
     (tension_controlled_limit_strain (tension_steel example_beam)) \<and>
   (324660000 :: real) \<le> 462990000"
proof -
  let ?cap = "CapacityResult (588489 / 146) (2891755892311 / 5329)
            (AnalysisResult (34617 / 146) (1 / 250) (47 / 60) (2891755892311 / 5329))"
  have rect: "is_RectangularSection example_beam" by (simp add: example_beam_def)
  have tc: "is_greater_or_equal (130163 / 20000000)
     (tension_controlled_limit_strain (tension_steel example_beam))"
    by (simp add: example_beam_def steel_defs helper_defs)
  have ub: "(3000 :: real) \<le> CapacityResult.as_max ?cap" by simp
  have le: "(2000 :: real) \<le> 3000" by simp
  note th = design_moment_monotone_parts [OF valid_example_beam
      get_maximum_capacity_example_beam le ub analyze_example_beam_2000
      analyze_example_beam_3000]
  from th rect tc have "(324660000 :: real) \<le> 462990000" by simp
  then show ?thesis
    using valid_example_beam get_maximum_capacity_example_beam analyze_example_beam_2000
      analyze_example_beam_3000 rect tc by simp
qed

text \<open>
  Over the whole interval the product is not monotone.  With a compressive force of
  3000 kN on the example beam (below the axial bound of 3124.68 kN), raising the steel
  area from 10900 to 11300 square millimetres, both below \<open>As_max\<close>, moves the section from
  the tension-controlled range into the transition range: \<open>phi\<close> falls from 0.85 to about
  0.813 while the nominal moment, dominated by the axial term, rises by little, and the
  design strength drops from 1086.3 to about 1085.1 kNm.
\<close>

theorem design_moment_monotone_counterexample:
  "valid_section example_beam \<and>
   get_maximum_capacity example_beam 3000000 =
     Inr (CapacityResult (1683489 / 146) (5703203067311 / 5329)
            (AnalysisResult (34617 / 146) (1 / 250) (47 / 60) (5703203067311 / 5329))) \<and>
   (0 :: real) \<le> 10900 \<and> (10900 :: real) \<le> 11300 \<and> (11300 :: real) \<le> 1683489 / 146 \<and>
   analyze_section example_beam 10900 3000000 0 =
     Inr (AnalysisResult 200 (21417 / 4000000) (17 / 20) 1086317000) \<and>
   analyze_section example_beam 11300 3000000 0 =
     Inr (AnalysisResult (3800 / 17) (337689 / 76000000) (926689 / 1140000)
            (350476559867 / 323)) \<and>
   (350476559867 / 323 :: real) < 1086317000"
proof -
  have a1: "analyze_section example_beam 10900 3000000 0 =
     Inr (AnalysisResult 200 (21417 / 4000000) (17 / 20) 1086317000)"
    by (simp add: example_beam_def rectangular_eval_defs)
  have a2: "analyze_section example_beam 11300 3000000 0 =
     Inr (AnalysisResult (3800 / 17) (337689 / 76000000) (926689 / 1140000)
            (350476559867 / 323))"
    by (simp add: example_beam_def rectangular_eval_defs)
  show ?thesis
    using valid_example_beam get_maximum_capacity_example_beam_loaded a1 a2 by simp
qed

end
